theory Spec2Isabelle
  imports Main "HOL-Library.Sublist"
begin

unbundle bit_operations_syntax

section \<open>Constants of smallsh.c\<close>

definition MAX_PROCS :: nat where
  "MAX_PROCS = 50"

definition MAX_LENGTH :: nat where
  "MAX_LENGTH = 2048"

definition SIGKILL :: int where
  "SIGKILL = 9"

definition EXIT_SUCCESS :: int where
  "EXIT_SUCCESS = 0"

definition EXIT_FAILURE :: int where
  "EXIT_FAILURE = 1"

definition STDIN_FILENO :: nat where
  "STDIN_FILENO = 0"

definition STDOUT_FILENO :: nat where
  "STDOUT_FILENO = 1"

section \<open>The parser: getCommand\<close>

text \<open>
  \<^verbatim>\<open>struct command\<close>. The argument array is kept as the list of the strings its entries
  point to, up to the terminating null pointer; a null \<^verbatim>\<open>inputFile\<close> or \<^verbatim>\<open>outputFile\<close> is
  \<open>None\<close>.
\<close>

record command =
  args :: "string list"
  inputFile :: "string option"
  outputFile :: "string option"
  background :: bool

text \<open>The delimiters \<^verbatim>\<open>" \n"\<close> handed to \<^verbatim>\<open>strtok\<close>: the space and the newline only.\<close>

definition delimiter :: string where
  "delimiter = [CHR '' '', CHR 0x0A]"

definition is_delim :: "char \<Rightarrow> bool" where
  "is_delim c = (c \<in> set delimiter)"

text \<open>
  One call of \<^verbatim>\<open>strtok\<close> on what is left of the buffer: leading delimiters are skipped;
  with nothing left the call returns the null pointer (\<open>None\<close>); otherwise the token runs
  to the next delimiter, which is overwritten, and the scan resumes behind it.
\<close>

definition strtok :: "string \<Rightarrow> (string \<times> string) option" where
  "strtok s =
     (let s1 = dropWhile is_delim s in
      if s1 = [] then None
      else Some (takeWhile (\<lambda>c. \<not> is_delim c) s1,
                 drop 1 (dropWhile (\<lambda>c. \<not> is_delim c) s1)))"

text \<open>The tokens the loop of \<^verbatim>\<open>getCommand\<close> sees, in order, until \<^verbatim>\<open>strtok\<close> returns null.\<close>

function tokens :: "string \<Rightarrow> string list" where
  "tokens s = (case strtok s of None \<Rightarrow> [] | Some (t, r) \<Rightarrow> t # tokens r)"
  by pat_completeness auto
termination
proof (relation "measure length")
  show "wf (measure length)" by simp
next
  fix s :: string and x2 :: "string \<times> string" and t r :: string
  assume h: "strtok s = Some x2" and x2: "(t, r) = x2"
  let ?s1 = "dropWhile is_delim s"
  let ?s2 = "dropWhile (\<lambda>c. \<not> is_delim c) ?s1"
  from h x2 have ne: "?s1 \<noteq> []" and r: "r = drop 1 ?s2"
    by (auto simp: strtok_def Let_def split: if_splits)
  from ne obtain a list where s1: "?s1 = a # list"
    by (cases ?s1) auto
  from ne have "\<not> is_delim (hd ?s1)"
    by (rule hd_dropWhile)
  with s1 have "?s2 = dropWhile (\<lambda>c. \<not> is_delim c) list"
    by simp
  moreover have "length (dropWhile (\<lambda>c. \<not> is_delim c) list) \<le> length list"
    by (rule length_dropWhile_le)
  ultimately have "length ?s2 < length ?s1"
    using s1 by simp
  moreover have "length r \<le> length ?s2" using r by simp
  moreover have "length ?s1 \<le> length s" by (rule length_dropWhile_le)
  ultimately show "(r, s) \<in> measure length" by simp
qed

declare tokens.simps [simp del]

text \<open>
  The conversion \<^verbatim>\<open>%d\<close> of \<^verbatim>\<open>printf\<close> and \<^verbatim>\<open>sprintf\<close>: the decimal digits, most significant
  first, with a minus sign for a negative number.
\<close>

definition digit_char :: "nat \<Rightarrow> char" where
  "digit_char d = ''0123456789'' ! d"

function dec_digits :: "nat \<Rightarrow> string" where
  "dec_digits n = (if n < 10 then [digit_char n] else dec_digits (n div 10) @ [digit_char (n mod 10)])"
  by pat_completeness auto
termination
  by (relation "measure id") auto

declare dec_digits.simps [simp del]

definition show_int :: "int \<Rightarrow> string" where
  "show_int k = (if k < 0 then CHR ''-'' # dec_digits (nat (- k)) else dec_digits (nat k))"

text \<open>
  \<^verbatim>\<open>regcomp(&regex, "^#", 0)\<close> and \<^verbatim>\<open>regexec\<close>: the token matches (\<^verbatim>\<open>isComment == 0\<close>) when its
  first character is \<^verbatim>\<open>#\<close>.
\<close>

definition isComment :: "string \<Rightarrow> bool" where
  "isComment token = (case token of [] \<Rightarrow> False | c # _ \<Rightarrow> c = CHR ''#'')"

text \<open>
  \<^verbatim>\<open>strstr(haystack, needle)\<close>: the offset of the first occurrence of the needle, \<open>None\<close>
  for the null pointer.
\<close>

fun strstr :: "string \<Rightarrow> string \<Rightarrow> nat option" where
  "strstr [] needle = (if needle = [] then Some 0 else None)"
| "strstr (c # cs) needle =
     (if prefix needle (c # cs) then Some 0 else map_option Suc (strstr cs needle))"

text \<open>
  The branch of \<^verbatim>\<open>getCommand\<close> for a token with \<^verbatim>\<open>$$\<close>, \<open>replace\<close> being the offset
  \<^verbatim>\<open>strstr(token, "$$") - token\<close>: \<^verbatim>\<open>pre\<close> gets the \<open>replace\<close> characters before it, \<^verbatim>\<open>post\<close>
  the characters from offset \<open>replace + 2\<close> on. \<^verbatim>\<open>pre\<close> and \<^verbatim>\<open>post\<close> are arrays, never null
  pointers, so of the four \<^verbatim>\<open>sprintf\<close> calls only the last is ever reached:
  \<^verbatim>\<open>sprintf(res, "%s%d%s", pre, pid, post)\<close>. This is the string written to \<^verbatim>\<open>res\<close>. (A
  result that would not fit the \<open>MAX_LENGTH\<close> bytes of \<^verbatim>\<open>res\<close> is outside the model.)
\<close>

definition expand_pid :: "int \<Rightarrow> string \<Rightarrow> nat \<Rightarrow> string" where
  "expand_pid pid token replace =
     (let pre = take replace token;
          post = drop (replace + 2) token
      in pre @ show_int pid @ post)"

text \<open>
  \<^verbatim>\<open>args[i++] = res\<close> stores the address of the array \<^verbatim>\<open>res\<close>, not a copy of the string, and
  \<^verbatim>\<open>res\<close> is the same array in every round of the loop. So every entry of \<^verbatim>\<open>args\<close> that holds
  that address points to whatever the array holds now: a later token with \<^verbatim>\<open>$$\<close> on the
  same line, which writes the array again, changes the string all of them point to.
  \<open>res_args\<close> lists the indices of these entries, and \<open>write_res\<close> gives the argument
  strings after \<open>res\<close> has been written to the array. (The array is taken to keep its
  contents until the arguments are used.)
\<close>

definition write_res :: "nat list \<Rightarrow> string \<Rightarrow> string list \<Rightarrow> string list" where
  "write_res res_args res strings = fold (\<lambda>j strs. strs[j := res]) res_args strings"

text \<open>
  The \<^verbatim>\<open>while (token != NULL)\<close> loop of \<^verbatim>\<open>getCommand\<close> over the tokens still to come. The
  locals \<^verbatim>\<open>outRedirect\<close> and \<^verbatim>\<open>inRedirect\<close> and the command under construction are passed
  along, with \<open>res_args\<close>, the indices of the arguments that point to the array \<^verbatim>\<open>res\<close>; the
  index \<^verbatim>\<open>i\<close> is the length of \<open>args\<close>. \<open>pid\<close> is what \<^verbatim>\<open>getpid()\<close> returns and \<open>bgDisabled\<close>
  the global \<^verbatim>\<open>backgroundDisabled\<close>, which the loop only reads. The comment branch stores
  the null terminator at \<^verbatim>\<open>args[i]\<close> and leaves the loop (\<^verbatim>\<open>break\<close>).
\<close>

fun getCommand_loop ::
  "int \<Rightarrow> bool \<Rightarrow> string list \<Rightarrow> bool \<Rightarrow> bool \<Rightarrow> nat list \<Rightarrow> command \<Rightarrow> command" where
  "getCommand_loop pid bgDisabled [] outRedirect inRedirect res_args cur = cur"
| "getCommand_loop pid bgDisabled (token # rest) outRedirect inRedirect res_args cur =
     (if outRedirect then
        getCommand_loop pid bgDisabled rest False inRedirect res_args
          (cur\<lparr>outputFile := Some token\<rparr>)
      else if inRedirect then
        getCommand_loop pid bgDisabled rest outRedirect False res_args
          (cur\<lparr>inputFile := Some token\<rparr>)
      else if isComment token then cur
      else if token = ''<'' then
        getCommand_loop pid bgDisabled rest outRedirect True res_args cur
      else if token = ''>'' then
        getCommand_loop pid bgDisabled rest True inRedirect res_args cur
      else if token = ''&'' then
        getCommand_loop pid bgDisabled rest outRedirect inRedirect res_args
          (if \<not> bgDisabled then cur\<lparr>background := True\<rparr> else cur)
      else (case strstr token ''$$'' of
              Some replace \<Rightarrow>
                getCommand_loop pid bgDisabled rest outRedirect inRedirect
                  (res_args @ [length (args cur)])
                  (cur\<lparr>args := write_res res_args (expand_pid pid token replace) (args cur)
                                 @ [expand_pid pid token replace]\<rparr>)
            | None \<Rightarrow>
                getCommand_loop pid bgDisabled rest outRedirect inRedirect res_args
                  (cur\<lparr>args := args cur @ [token]\<rparr>)))"

text \<open>
  \<^verbatim>\<open>getCommand(command, curCommand)\<close>: the loop from the first token, both flags \<^verbatim>\<open>FALSE\<close>
  and no argument yet that points to \<^verbatim>\<open>res\<close>.
\<close>

definition getCommand :: "int \<Rightarrow> bool \<Rightarrow> string \<Rightarrow> command \<Rightarrow> command" where
  "getCommand pid bgDisabled buffer curCommand =
     getCommand_loop pid bgDisabled (tokens buffer) False False [] curCommand"

text \<open>The command as \<^verbatim>\<open>runShell\<close> resets it at the top of every iteration.\<close>

definition new_command :: command where
  "new_command = \<lparr>args = [], inputFile = None, outputFile = None, background = False\<rparr>"

section \<open>The shell's state and its environment\<close>

text \<open>\<^verbatim>\<open>struct backProcess\<close>.\<close>

record backProcess =
  backPID :: int
  active :: bool

text \<open>
  What the shell does to its environment, in the order it does it: a line written to
  \<^verbatim>\<open>stdout\<close>, a \<^verbatim>\<open>perror\<close> message, a \<^verbatim>\<open>kill(pid, sig)\<close>, the \<^verbatim>\<open>free\<close> of a job record (with the
  record's contents at that moment), a \<^verbatim>\<open>dup2(old, new)\<close>, and a \<^verbatim>\<open>chdir\<close> (\<open>None\<close> for the
  value of \<^verbatim>\<open>HOME\<close>).
\<close>

datatype event =
    Write string
  | Perror string
  | Kill int int
  | Free backProcess
  | Dup2 int nat
  | Chdir "string option"

text \<open>
  The four globals of smallsh.c, the descriptor table of the shell's process (entry \<open>fd\<close>
  is the open file description descriptor \<open>fd\<close> refers to, \<open>None\<close> when it is closed), and
  the trace of the events so far. \<open>backProcs\<close> is the array of \<open>MAX_PROCS\<close> pointers, a
  null pointer being \<open>None\<close>.
\<close>

record shell =
  forePID :: int
  backProcs :: "backProcess option list"
  exitStatus :: int
  backgroundDisabled :: bool
  fds :: "nat option list"
  trace :: "event list"

text \<open>
  What a call returns to the shell loop: it returns a value in a new state, it ends the
  shell's process with an exit code, control is in the forked child (which ends in
  \<^verbatim>\<open>execvp\<close> or \<^verbatim>\<open>exit(1)\<close> and never comes back to the loop), or an array was indexed
  outside its bounds.
\<close>

datatype 'a result =
    Return 'a shell
  | Exit int shell
  | Child
  | OutOfBounds

subsection \<open>The operating system's side\<close>

text \<open>
  \<^verbatim>\<open>dup(fd)\<close> returns the lowest descriptor not in use, now referring to the same
  description as \<open>fd\<close>, or \<open>-1\<close> when \<open>fd\<close> is not open or the table is full; \<^verbatim>\<open>dup2(old, new)\<close>
  makes \<open>new\<close> refer to the description of \<open>old\<close> and changes nothing when \<open>old\<close> is not an
  open descriptor.
\<close>

fun first_free :: "nat option list \<Rightarrow> nat option" where
  "first_free [] = None"
| "first_free (x # xs) = (if x = None then Some 0 else map_option Suc (first_free xs))"

definition is_open :: "nat option list \<Rightarrow> int \<Rightarrow> bool" where
  "is_open tbl fd = (0 \<le> fd \<and> nat fd < length tbl \<and> tbl ! nat fd \<noteq> None)"

definition sys_dup :: "nat option list \<Rightarrow> nat \<Rightarrow> int \<times> nat option list" where
  "sys_dup tbl fd =
     (if is_open tbl (int fd) then
        (case first_free tbl of
           Some n \<Rightarrow> (int n, tbl[n := tbl ! fd])
         | None \<Rightarrow> (- 1, tbl))
      else (- 1, tbl))"

definition sys_dup2 :: "nat option list \<Rightarrow> int \<Rightarrow> nat \<Rightarrow> nat option list" where
  "sys_dup2 tbl old new =
     (if is_open tbl old \<and> new < length tbl then tbl[new := tbl ! nat old] else tbl)"

text \<open>
  The macro \<^verbatim>\<open>WEXITSTATUS\<close> comes from the C library's headers, not from smallsh.c; this is
  its definition there: bits 8 to 15 of the wait status. A child that called \<^verbatim>\<open>exit(c)\<close> has
  the wait status \<open>W_EXITCODE c 0\<close>, a child killed by signal \<open>n\<close> the wait status
  \<open>W_EXITCODE 0 n\<close>.
\<close>

definition WEXITSTATUS :: "int \<Rightarrow> int" where
  "WEXITSTATUS status = drop_bit 8 (status AND 0xff00)"

definition W_EXITCODE :: "int \<Rightarrow> int \<Rightarrow> int" where
  "W_EXITCODE ret sig = push_bit 8 ret OR sig"

section \<open>The job table\<close>

text \<open>
  \<^verbatim>\<open>saveProcess\<close>: the scan \<^verbatim>\<open>while (saved == FALSE)\<close> from index \<open>i\<close> on. The source has no
  bound on \<open>i\<close>: past the last entry it reads outside the array, which is \<open>None\<close> here.
\<close>

function saveProcess_scan :: "backProcess \<Rightarrow> nat \<Rightarrow> backProcess option list \<Rightarrow> backProcess option list option" where
  "saveProcess_scan proc i tbl =
     (if length tbl \<le> i then None
      else if tbl ! i = None then Some (tbl[i := Some proc])
      else saveProcess_scan proc (Suc i) tbl)"
  by pat_completeness auto
termination
  by (relation "measure (\<lambda>(proc, i, tbl). length tbl - i)") auto

declare saveProcess_scan.simps [simp del]

definition saveProcess :: "int \<Rightarrow> shell \<Rightarrow> shell option" where
  "saveProcess spawnpid s =
     (let proc = \<lparr>backPID = spawnpid, active = True\<rparr> in
      map_option (\<lambda>tbl. s\<lparr>backProcs := tbl\<rparr>) (saveProcess_scan proc 0 (backProcs s)))"

text \<open>The two notification lines of \<^verbatim>\<open>childTerminates\<close>, chosen by the captured status.\<close>

definition done_line :: "int \<Rightarrow> int \<Rightarrow> string" where
  "done_line pid status =
     (if status \<noteq> 0 \<and> status \<noteq> 1 then
        ''background pid '' @ show_int pid @ '' is done: terminated by signal '' @ show_int status @ ''\<newline>''
      else
        ''background pid '' @ show_int pid @ '' is done: exit value '' @ show_int status @ ''\<newline>'')"

text \<open>
  One round of the \<^verbatim>\<open>for\<close> loop of \<^verbatim>\<open>childTerminates\<close>, at index \<open>i\<close>. \<open>waitpid_nohang p\<close> is
  what \<^verbatim>\<open>waitpid(p, &exitStatus, WNOHANG)\<close> answers: the value it returns and the status it
  stores in \<^verbatim>\<open>exitStatus\<close> when that value is positive (the status is stored only when a
  child's status is available).
\<close>

definition childTerminates_slot :: "(int \<Rightarrow> int \<times> int) \<Rightarrow> shell \<Rightarrow> nat \<Rightarrow> shell" where
  "childTerminates_slot waitpid_nohang s i =
     (case backProcs s ! i of
        None \<Rightarrow> s
      | Some proc \<Rightarrow>
          (let (pid, status) = waitpid_nohang (backPID proc) in
           if pid > 0 then
             s\<lparr>exitStatus := status,
               backProcs := (backProcs s)[i := None],
               trace := trace s @
                 [Kill (backPID proc) SIGKILL,
                  Write (done_line pid status),
                  Free (proc\<lparr>active := False\<rparr>)]\<rparr>
           else s))"

definition childTerminates :: "(int \<Rightarrow> int \<times> int) \<Rightarrow> shell \<Rightarrow> shell" where
  "childTerminates waitpid_nohang s = foldl (childTerminates_slot waitpid_nohang) s [0..<MAX_PROCS]"

text \<open>\<^verbatim>\<open>exitShell\<close>: one round of its loop, and the whole function, which ends the process.\<close>

definition exitShell_slot :: "shell \<Rightarrow> nat \<Rightarrow> shell" where
  "exitShell_slot s i =
     (case backProcs s ! i of
        None \<Rightarrow> s
      | Some proc \<Rightarrow>
          s\<lparr>backProcs := (backProcs s)[i := None],
            trace := trace s @ [Kill (backPID proc) SIGKILL, Free proc]\<rparr>)"

definition exitShell :: "shell \<Rightarrow> unit result" where
  "exitShell s = Exit EXIT_SUCCESS (foldl exitShell_slot s [0..<MAX_PROCS])"

section \<open>Signal handlers and built-ins\<close>

definition disableBackground :: "shell \<Rightarrow> shell" where
  "disableBackground s =
     (if backgroundDisabled s then
        s\<lparr>trace := trace s @ [Write ''Exiting foreground-only mode\<newline>''],
          backgroundDisabled := False\<rparr>
      else
        s\<lparr>trace := trace s @ [Write ''Entering foreground-only mode (& is now ignored)\<newline>''],
          backgroundDisabled := True\<rparr>)"

definition interruptSignal :: "int \<Rightarrow> shell \<Rightarrow> shell" where
  "interruptSignal sigNum s =
     s\<lparr>trace := trace s @
        [Kill (forePID s) SIGKILL,
         Write (''terminated by signal '' @ show_int sigNum @ ''\<newline>'')]\<rparr>"

definition printStatus :: "shell \<Rightarrow> shell" where
  "printStatus s = s\<lparr>trace := trace s @ [Write (''exit value '' @ show_int (exitStatus s) @ ''\<newline>'')]\<rparr>"

text \<open>\<^verbatim>\<open>changeDir\<close>; \<open>chdir_ret\<close> is what \<^verbatim>\<open>chdir\<close> returns.\<close>

definition changeDir :: "int \<Rightarrow> string option \<Rightarrow> shell \<Rightarrow> shell" where
  "changeDir chdir_ret path s =
     (let s1 = s\<lparr>trace := trace s @ [Chdir path]\<rparr> in
      if chdir_ret = - 1 then s1\<lparr>trace := trace s1 @ [Perror ''Error:'']\<rparr> else s1)"

section \<open>The process launcher: runCommand\<close>

text \<open>
  The end of the parent's branch of \<^verbatim>\<open>runCommand\<close>: \<^verbatim>\<open>dup2(stdIn, STDIN_FILENO)\<close> when an input
  file was given, \<^verbatim>\<open>dup2(stdOut, STDOUT_FILENO)\<close> when an output file was given.
\<close>

definition restore_stdio :: "int \<Rightarrow> int \<Rightarrow> command \<Rightarrow> shell \<Rightarrow> shell" where
  "restore_stdio stdOut stdIn curCommand s =
     (let s1 = (if inputFile curCommand \<noteq> None
                then s\<lparr>fds := sys_dup2 (fds s) stdIn STDIN_FILENO,
                       trace := trace s @ [Dup2 stdIn STDIN_FILENO]\<rparr>
                else s)
      in if outputFile curCommand \<noteq> None
         then s1\<lparr>fds := sys_dup2 (fds s1) stdOut STDOUT_FILENO,
                 trace := trace s1 @ [Dup2 stdOut STDOUT_FILENO]\<rparr>
         else s1)"

text \<open>
  \<^verbatim>\<open>runCommand\<close>, followed in the calling process. \<open>spawnpid\<close> is what \<^verbatim>\<open>fork()\<close> returns there
  and \<open>wait_status\<close> what the blocking \<^verbatim>\<open>waitpid(spawnpid, &exitStatus, 0)\<close> stores in
  \<^verbatim>\<open>exitStatus\<close> (\<open>None\<close> when the call fails and stores nothing). All that the child does
  (the redirections, \<^verbatim>\<open>execvp\<close>, \<^verbatim>\<open>exit(1)\<close>) happens in another process and reaches the
  shell as a wait status only.
\<close>

definition runCommand :: "int \<Rightarrow> int option \<Rightarrow> command \<Rightarrow> shell \<Rightarrow> int result" where
  "runCommand spawnpid wait_status curCommand s =
     (let (stdOut, fds1) = sys_dup (fds s) STDOUT_FILENO;
          (stdIn, fds2) = sys_dup fds1 STDIN_FILENO;
          s1 = s\<lparr>fds := fds2\<rparr>
      in
      if stdOut = - 1 \<or> stdIn = - 1 then
        Exit EXIT_FAILURE (s1\<lparr>trace := trace s1 @ [Perror ''Error'']\<rparr>)
      else if spawnpid = 0 then Child
      else if spawnpid > 0 then
        (case (if background curCommand then
                 map_option
                   (\<lambda>s2. s2\<lparr>trace := trace s2 @
                      [Write (''background pid is '' @ show_int spawnpid @ ''\<newline>'')]\<rparr>)
                   (saveProcess spawnpid s1)
               else
                 Some (s1\<lparr>forePID := spawnpid,
                          exitStatus := (case wait_status of
                                           Some status \<Rightarrow> status
                                         | None \<Rightarrow> exitStatus s1)\<rparr>)) of
           None \<Rightarrow> OutOfBounds
         | Some s2 \<Rightarrow>
             (let s3 = restore_stdio stdOut stdIn curCommand s2
              in Return (WEXITSTATUS (exitStatus s3)) s3))
      else
        Exit EXIT_FAILURE (s1\<lparr>trace := trace s1 @ [Perror ''Error'']\<rparr>))"

section \<open>The shell loop: runShell\<close>

text \<open>
  The globals as smallsh.c initialises them, with the array of background processes as
  the first loop of \<^verbatim>\<open>runShell\<close> leaves it; \<open>fds0\<close> is the descriptor table the shell starts
  with.
\<close>

definition initial_shell :: "nat option list \<Rightarrow> shell" where
  "initial_shell fds0 =
     \<lparr>forePID = - 1, backProcs = replicate MAX_PROCS None, exitStatus = 0,
      backgroundDisabled = False, fds = fds0, trace = []\<rparr>"

text \<open>What the operating system answers in one iteration of the loop.\<close>

record os_answers =
  getpid_ret :: int
  fork_ret :: int
  waitpid_status :: "int option"
  chdir_ret :: int

text \<open>
  The dispatch of one iteration, after \<^verbatim>\<open>fgets\<close> has left the line in \<open>buffer\<close>. The argument
  array has \<^verbatim>\<open>strlen(buffer)\<close> entries, all null before \<^verbatim>\<open>getCommand\<close>: with an empty buffer
  (nothing was read) the test of \<^verbatim>\<open>args[0]\<close> reads outside it. \<^verbatim>\<open>changeDir\<close> gets \<^verbatim>\<open>args[1]\<close>,
  null when there is no second argument.
\<close>

definition dispatch :: "os_answers \<Rightarrow> string \<Rightarrow> shell \<Rightarrow> unit result" where
  "dispatch os buffer s =
     (let curCommand = getCommand (getpid_ret os) (backgroundDisabled s) buffer new_command in
      case args curCommand of
        [] \<Rightarrow> if buffer = [] then OutOfBounds else Return () s
      | arg0 # others \<Rightarrow>
          if arg0 = ''exit'' then exitShell s
          else if arg0 = ''cd'' then
            Return () (changeDir (chdir_ret os) (case others of [] \<Rightarrow> None | arg1 # _ \<Rightarrow> Some arg1) s)
          else if arg0 = ''status'' then Return () (printStatus s)
          else
            (case runCommand (fork_ret os) (waitpid_status os) curCommand s of
               Return status s1 \<Rightarrow> Return () (s1\<lparr>exitStatus := status\<rparr>)
             | Exit code s1 \<Rightarrow> Exit code s1
             | Child \<Rightarrow> Child
             | OutOfBounds \<Rightarrow> OutOfBounds))"

text \<open>One iteration of \<^verbatim>\<open>while (1)\<close>: the prompt, then the dispatch of the line read.\<close>

definition runShell_iteration :: "os_answers \<Rightarrow> string \<Rightarrow> shell \<Rightarrow> unit result" where
  "runShell_iteration os buffer s = dispatch os buffer (s\<lparr>trace := trace s @ [Write '': '']\<rparr>)"

section \<open>Helpers for stating the claims\<close>

text \<open>The job records a table holds, in the order of their slots.\<close>

fun tracked :: "backProcess option list \<Rightarrow> backProcess list" where
  "tracked [] = []"
| "tracked (None # tbl) = tracked tbl"
| "tracked (Some proc # tbl) = proc # tracked tbl"

text \<open>
  A descriptor table to run examples with: descriptors 0, 1 and 2 open on the terminal
  (description 0), five more free.
\<close>

definition std_fds :: "nat option list" where
  "std_fds = [Some 0, Some 0, Some 0, None, None, None, None, None]"

text \<open>A state to run examples with: two jobs, in slots 0 and 3 of the table.\<close>

definition two_jobs :: shell where
  "two_jobs =
     (initial_shell std_fds)
       \<lparr>backProcs := (replicate MAX_PROCS None)
          [0 := Some \<lparr>backPID = 100, active = True\<rparr>,
           3 := Some \<lparr>backPID = 101, active = True\<rparr>]\<rparr>"

text \<open>
  What \<^verbatim>\<open>childTerminates\<close> does for one tracked record: nothing when \<^verbatim>\<open>waitpid\<close> returns no
  pid, otherwise the \<^verbatim>\<open>kill\<close>, the notification line and the \<^verbatim>\<open>free\<close> of the record, which
  has been marked inactive.
\<close>

definition reap_events :: "(int \<Rightarrow> int \<times> int) \<Rightarrow> backProcess \<Rightarrow> event list" where
  "reap_events waitpid_nohang proc =
     (let (pid, status) = waitpid_nohang (backPID proc) in
      if pid > 0 then
        [Kill (backPID proc) SIGKILL, Write (done_line pid status), Free (proc\<lparr>active := False\<rparr>)]
      else [])"

text \<open>
  The life of the job table between the shell's other doings: a job is registered
  (\<^verbatim>\<open>saveProcess\<close>, called by the launcher), or \<^verbatim>\<open>SIGCHLD\<close> arrives and the handler runs with
  the answers \<^verbatim>\<open>waitpid\<close> gives at that moment. The handler's mask blocks all signals and
  \<^verbatim>\<open>saveProcess\<close> writes the table in one store, so the events are taken one after the
  other. \<open>None\<close> is a registration that ran off the table.
\<close>

datatype job_event = Register int | Sigchld "int \<Rightarrow> int \<times> int"

fun registrations :: "job_event list \<Rightarrow> nat" where
  "registrations [] = 0"
| "registrations (Register pid # es) = Suc (registrations es)"
| "registrations (Sigchld waitpid_nohang # es) = registrations es"

fun job_run :: "job_event list \<Rightarrow> shell \<Rightarrow> shell option" where
  "job_run [] s = Some s"
| "job_run (Register pid # es) s =
     (case saveProcess pid s of None \<Rightarrow> None | Some s' \<Rightarrow> job_run es s')"
| "job_run (Sigchld waitpid_nohang # es) s = job_run es (childTerminates waitpid_nohang s)"

text \<open>
  The shell over time: a line is read and one iteration of the loop runs, or a signal
  arrives and its handler runs (\<^verbatim>\<open>childTerminates\<close> for \<^verbatim>\<open>SIGCHLD\<close>, with the answers \<^verbatim>\<open>waitpid\<close>
  gives at that moment, \<^verbatim>\<open>disableBackground\<close> for \<^verbatim>\<open>SIGTSTP\<close>, \<^verbatim>\<open>interruptSignal\<close> for
  \<^verbatim>\<open>SIGINT\<close>). The handlers are taken between iterations. The run ends where the shell's
  process ends.
\<close>

datatype shell_event =
    Input os_answers string
  | Chld "int \<Rightarrow> int \<times> int"
  | Tstp
  | Intr int

fun shell_step :: "shell_event \<Rightarrow> shell \<Rightarrow> unit result" where
  "shell_step (Input os buffer) s = runShell_iteration os buffer s"
| "shell_step (Chld waitpid_nohang) s = Return () (childTerminates waitpid_nohang s)"
| "shell_step Tstp s = Return () (disableBackground s)"
| "shell_step (Intr sigNum) s = Return () (interruptSignal sigNum s)"

fun shell_run :: "shell_event list \<Rightarrow> shell \<Rightarrow> unit result" where
  "shell_run [] s = Return () s"
| "shell_run (e # es) s =
     (case shell_step e s of
        Return u s' \<Rightarrow> shell_run es s'
      | Exit code s' \<Rightarrow> Exit code s'
      | Child \<Rightarrow> Child
      | OutOfBounds \<Rightarrow> OutOfBounds)"

text \<open>
  An event that launches no command and reaps no job: a line (of at least one character)
  that leaves no argument or whose first argument is \<^verbatim>\<open>cd\<close> or \<^verbatim>\<open>status\<close>; a \<^verbatim>\<open>SIGCHLD\<close> for
  which \<^verbatim>\<open>waitpid\<close> returns no pid for any tracked job; a \<^verbatim>\<open>SIGTSTP\<close>; a \<^verbatim>\<open>SIGINT\<close>. A run is
  quiet when every event of it is, in the state it meets.
\<close>

fun quiet :: "shell_event \<Rightarrow> shell \<Rightarrow> bool" where
  "quiet (Input os buffer) s =
     (buffer \<noteq> [] \<and>
      (case args (getCommand (getpid_ret os) (backgroundDisabled s) buffer new_command) of
         [] \<Rightarrow> True
       | arg0 # others \<Rightarrow> arg0 = ''cd'' \<or> arg0 = ''status''))"
| "quiet (Chld waitpid_nohang) s =
     (\<forall>proc \<in> set (tracked (backProcs s)). fst (waitpid_nohang (backPID proc)) \<le> 0)"
| "quiet Tstp s = True"
| "quiet (Intr sigNum) s = True"

fun quiet_run :: "shell_event list \<Rightarrow> shell \<Rightarrow> bool" where
  "quiet_run [] s = True"
| "quiet_run (e # es) s =
     (quiet e s \<and>
      (case shell_step e s of
         Return u s' \<Rightarrow> quiet_run es s'
       | Exit code s' \<Rightarrow> False
       | Child \<Rightarrow> False
       | OutOfBounds \<Rightarrow> False))"


section \<open>Lemmas about the parser\<close>

lemma tokens_sort_line:
  "tokens ''sort < in.txt > out.txt &\<newline>'' = [''sort'', ''<'', ''in.txt'', ''>'', ''out.txt'', ''&'']"
  by code_simp





lemma tokens_sleep_bg: "tokens ''sleep 5 &\<newline>'' = [''sleep'', ''5'', ''&'']"
  by code_simp

lemma tokens_sleep_amp_x: "tokens ''sleep 5 & x\<newline>'' = [''sleep'', ''5'', ''&'', ''x'']"
  by code_simp

lemma tokens_ls_bg: "tokens ''ls &\<newline>'' = [''ls'', ''&'']"
  by code_simp

lemma tokens_cat_line: "tokens ''cat < & > #x $$\<newline>'' = [''cat'', ''<'', ''&'', ''>'', ''#x'', ''$$'']"
  by code_simp

text \<open>The decimal form of a number is never empty and has digits and a sign only.\<close>

lemma digit_char_in: "d < 10 \<Longrightarrow> digit_char d \<in> set ''0123456789''"
  unfolding digit_char_def by (rule nth_mem) simp

lemma dec_digits_chars: "set (dec_digits n) \<subseteq> set ''0123456789''"
proof (induction n rule: dec_digits.induct)
  case (1 n)
  show ?case
  proof (cases "n < 10")
    case True
    then show ?thesis using digit_char_in [of n] by (subst dec_digits.simps) simp
  next
    case False
    have "n mod 10 < 10" by simp
    then have "digit_char (n mod 10) \<in> set ''0123456789''" by (rule digit_char_in)
    with 1 False show ?thesis by (subst dec_digits.simps) simp
  qed
qed

lemma dec_digits_not_Nil: "dec_digits n \<noteq> []"
  by (subst dec_digits.simps) simp

lemma show_int_not_Nil: "show_int k \<noteq> []"
  by (simp add: show_int_def dec_digits_not_Nil)

lemma show_int_no_amp: "CHR ''&'' \<notin> set (show_int k)"
  using dec_digits_chars [of "nat k"] dec_digits_chars [of "nat (- k)"]
  by (auto simp: show_int_def)

lemma expand_pid_not_amp: "expand_pid pid token replace \<noteq> ''&''"
proof
  assume "expand_pid pid token replace = ''&''"
  then have "set (show_int pid) \<subseteq> {CHR ''&''}"
    by (metis expand_pid_def set_append Un_upper1 Un_upper2 subset_trans list.simps(15) empty_set)
  with show_int_not_Nil [of pid] show_int_no_amp [of pid] show False
    by (cases "show_int pid") auto
qed

lemma amp_not_expand_pid: "''&'' \<noteq> expand_pid pid t k"
  using expand_pid_not_amp [of pid t k] by auto

text \<open>Writing the array changes arguments into the string written, and nothing else.\<close>

lemma write_res_Nil: "write_res [] res strings = strings"
  by (simp add: write_res_def)

lemma set_write_res: "set (write_res res_args res strings) \<subseteq> insert res (set strings)"
  unfolding write_res_def
proof (induction res_args arbitrary: strings)
  case Nil
  then show ?case by auto
next
  case (Cons j js)
  have "set (fold (\<lambda>j strs. strs[j := res]) js (strings[j := res]))
        \<subseteq> insert res (set (strings[j := res]))"
    by (rule Cons.IH)
  moreover have "set (strings[j := res]) \<subseteq> insert res (set strings)"
    by (rule set_update_subset_insert)
  ultimately show ?case by auto
qed

lemma length_write_res: "length (write_res res_args res strings) = length strings"
  unfolding write_res_def by (induction res_args arbitrary: strings) simp_all

lemma amp_not_in_write_res:
  "''&'' \<notin> set strings \<Longrightarrow> ''&'' \<notin> set (write_res res_args (expand_pid pid t k) strings)"
  using set_write_res [of res_args "expand_pid pid t k" strings] amp_not_expand_pid [of pid t k]
  by auto

lemma loop_args_no_amp:
  "''&'' \<notin> set (args cur) \<Longrightarrow>
   ''&'' \<notin> set (args (getCommand_loop pid bd ts outR inR ra cur))"
  by (induction ts arbitrary: outR inR ra cur)
     (simp_all add: amp_not_expand_pid amp_not_in_write_res split: option.split)

lemma loop_background_disabled:
  "background (getCommand_loop pid True ts outR inR ra cur) = background cur"
  by (induction ts arbitrary: outR inR ra cur) (simp_all split: option.split)

lemma loop_background_enabled:
  "background (getCommand_loop pid False ts outR inR ra cur) \<Longrightarrow>
   background cur \<or> ''&'' \<in> set ts"
proof (induction ts arbitrary: outR inR ra cur)
  case Nil
  then show ?case by simp
next
  case (Cons t ts)
  from Cons.prems show ?case
    by (auto dest!: Cons.IH split: if_split_asm option.split_asm)
qed

lemma loop_background:
  "background (getCommand_loop pid bd ts outR inR ra cur) \<Longrightarrow>
   background cur \<or> (''&'' \<in> set ts \<and> \<not> bd)"
  by (cases bd) (auto simp: loop_background_disabled dest: loop_background_enabled)


text \<open>Lines without a token, and lines that start with a comment.\<close>

lemma tokens_only_delimiters: "set buffer \<subseteq> set delimiter \<Longrightarrow> tokens buffer = []"
proof -
  assume "set buffer \<subseteq> set delimiter"
  then have "dropWhile is_delim buffer = []"
    by (auto simp: is_delim_def)
  then have "strtok buffer = None"
    by (simp add: strtok_def)
  then show ?thesis
    by (simp add: tokens.simps)
qed

lemma getCommand_comment_first:
  "tokens buffer = t # rest \<Longrightarrow> isComment t \<Longrightarrow> getCommand pid bd buffer cur = cur"
  by (simp add: getCommand_def)

lemma tokens_Nil_buffer: "tokens buffer \<noteq> [] \<Longrightarrow> buffer \<noteq> []"
  by (auto simp: tokens.simps strtok_def)

lemma tokens_blank_line: "tokens ''   \<newline>'' = []"
  by code_simp

lemma tokens_comment_line: "tokens ''#ls -la &\<newline>'' = [''#ls'', ''-la'', ''&'']"
  by code_simp

lemma tokens_tab_line: "tokens [CHR 0x09, CHR 0x0A] = [[CHR 0x09]]"
  by code_simp

lemma tokens_exit_line: "tokens ''exit\<newline>'' = [''exit'']"
  by code_simp

section \<open>Lemmas about the job table\<close>

lemma tracked_append: "tracked (xs @ ys) = tracked xs @ tracked ys"
  by (induction xs rule: tracked.induct) simp_all

lemma tracked_replicate_None: "tracked (replicate n None) = []"
  by (induction n) simp_all

lemma exitShell_fold:
  "k \<le> length (backProcs s) \<Longrightarrow>
   foldl exitShell_slot s [0..<k] =
     s\<lparr>backProcs := replicate k None @ drop k (backProcs s),
       trace := trace s @
         concat (map (\<lambda>proc. [Kill (backPID proc) SIGKILL, Free proc])
                     (tracked (take k (backProcs s))))\<rparr>"
proof (induction k)
  case 0
  then show ?case by simp
next
  case (Suc k)
  let ?tbl = "backProcs s"
  let ?sk = "foldl exitShell_slot s [0..<k]"
  from Suc.prems have k: "k < length ?tbl" by simp
  with Suc.IH have sk: "?sk = s\<lparr>backProcs := replicate k None @ drop k ?tbl,
       trace := trace s @
         concat (map (\<lambda>proc. [Kill (backPID proc) SIGKILL, Free proc])
                     (tracked (take k ?tbl)))\<rparr>"
    by simp
  have dr: "drop k ?tbl = ?tbl ! k # drop (Suc k) ?tbl"
    using k by (simp add: Cons_nth_drop_Suc)
  have tk: "take (Suc k) ?tbl = take k ?tbl @ [?tbl ! k]"
    using k by (simp add: take_Suc_conv_app_nth)
  have at: "backProcs ?sk ! k = ?tbl ! k"
    by (simp add: sk nth_append dr)
  have upd: "(replicate k None @ drop k ?tbl)[k := None] = replicate (Suc k) None @ drop (Suc k) ?tbl"
    by (simp add: dr list_update_append replicate_append_same)
  have "foldl exitShell_slot s [0..<Suc k] = exitShell_slot ?sk k"
    by simp
  also have "\<dots> = s\<lparr>backProcs := replicate (Suc k) None @ drop (Suc k) ?tbl,
       trace := trace s @
         concat (map (\<lambda>proc. [Kill (backPID proc) SIGKILL, Free proc])
                     (tracked (take (Suc k) ?tbl)))\<rparr>"
  proof (cases "?tbl ! k")
    case None
    with dr have "replicate k None @ drop k ?tbl = replicate (Suc k) None @ drop (Suc k) ?tbl"
      by (simp add: replicate_append_same)
    with None at show ?thesis
      by (simp add: exitShell_slot_def sk tk tracked_append)
  next
    case (Some proc)
    with at upd show ?thesis
      by (simp add: exitShell_slot_def sk tk tracked_append)
  qed
  finally show ?case .
qed

text \<open>A scan that comes back has filled the first empty slot from \<open>i\<close> on, and no other.\<close>

lemma saveProcess_scan_Some:
  "saveProcess_scan proc i tbl = Some tbl' \<Longrightarrow>
   \<exists>j. i \<le> j \<and> j < length tbl \<and> tbl ! j = None \<and> (\<forall>k. i \<le> k \<and> k < j \<longrightarrow> tbl ! k \<noteq> None)
       \<and> tbl' = tbl[j := Some proc]"
proof (induction proc i tbl rule: saveProcess_scan.induct)
  case (1 proc i tbl)
  show ?case
  proof (cases "length tbl \<le> i")
    case True
    with "1.prems" show ?thesis by (simp add: saveProcess_scan.simps)
  next
    case inb: False
    show ?thesis
    proof (cases "tbl ! i = None")
      case True
      with inb "1.prems" have "tbl' = tbl[i := Some proc]"
        by (simp add: saveProcess_scan.simps)
      with inb True show ?thesis by auto
    next
      case False
      with inb "1.prems" have "saveProcess_scan proc (Suc i) tbl = Some tbl'"
        by (simp add: saveProcess_scan.simps)
      from "1.IH" [OF inb False this] obtain j where j:
        "Suc i \<le> j" "j < length tbl" "tbl ! j = None"
        "\<forall>k. Suc i \<le> k \<and> k < j \<longrightarrow> tbl ! k \<noteq> None" "tbl' = tbl[j := Some proc]"
        by blast
      have "\<forall>k. i \<le> k \<and> k < j \<longrightarrow> tbl ! k \<noteq> None"
      proof (intro allI impI)
        fix k assume "i \<le> k \<and> k < j"
        then show "tbl ! k \<noteq> None"
          using False j(4) by (cases "k = i") auto
      qed
      with j show ?thesis by (intro exI [of _ j]) auto
    qed
  qed
qed

lemma saveProcess_Some:
  assumes "saveProcess spawnpid s = Some s'"
  shows "\<exists>j<length (backProcs s). backProcs s ! j = None
           \<and> s' = s\<lparr>backProcs := (backProcs s)[j := Some \<lparr>backPID = spawnpid, active = True\<rparr>]\<rparr>"
proof -
  from assms obtain tbl' where
    sc: "saveProcess_scan \<lparr>backPID = spawnpid, active = True\<rparr> 0 (backProcs s) = Some tbl'"
    and s': "s' = s\<lparr>backProcs := tbl'\<rparr>"
    by (auto simp: saveProcess_def)
  from saveProcess_scan_Some [OF sc] s' show ?thesis by auto
qed

text \<open>
  The handler's loop up to slot \<open>k\<close>: the slots before \<open>k\<close> whose process \<^verbatim>\<open>waitpid\<close> reported
  are empty, all others are as they were, and the trace has grown by the events of the
  records reaped, in slot order.
\<close>

lemma childTerminates_fold:
  "k \<le> length (backProcs s) \<Longrightarrow>
   foldl (childTerminates_slot w) s [0..<k] =
     s\<lparr>exitStatus := exitStatus (foldl (childTerminates_slot w) s [0..<k]),
       backProcs :=
         map (\<lambda>slot. case slot of
                       None \<Rightarrow> None
                     | Some proc \<Rightarrow> if 0 < fst (w (backPID proc)) then None else Some proc)
             (take k (backProcs s))
         @ drop k (backProcs s),
       trace := trace s @ concat (map (reap_events w) (tracked (take k (backProcs s))))\<rparr>"
proof (induction k)
  case 0
  then show ?case by simp
next
  case (Suc k)
  let ?tbl = "backProcs s"
  let ?f = "\<lambda>slot. case slot of
                       None \<Rightarrow> None
                     | Some proc \<Rightarrow> if 0 < fst (w (backPID proc)) then None else Some proc"
  let ?sk = "foldl (childTerminates_slot w) s [0..<k]"
  from Suc.prems have k: "k < length ?tbl" by simp
  with Suc.IH have sk: "?sk = s\<lparr>exitStatus := exitStatus ?sk,
       backProcs := map ?f (take k ?tbl) @ drop k ?tbl,
       trace := trace s @ concat (map (reap_events w) (tracked (take k ?tbl)))\<rparr>"
    by simp
  have dr: "drop k ?tbl = ?tbl ! k # drop (Suc k) ?tbl"
    using k by (simp add: Cons_nth_drop_Suc)
  have tk: "take (Suc k) ?tbl = take k ?tbl @ [?tbl ! k]"
    using k by (simp add: take_Suc_conv_app_nth)
  have len: "length (map ?f (take k ?tbl)) = k"
    using k by simp
  have bp: "backProcs ?sk = map ?f (take k ?tbl) @ drop k ?tbl"
    by (subst sk) simp
  have trc: "trace ?sk = trace s @ concat (map (reap_events w) (tracked (take k ?tbl)))"
    by (subst sk) simp
  have at: "backProcs ?sk ! k = ?tbl ! k"
    unfolding bp using len by (simp add: nth_append dr)
  have upd: "(map ?f (take k ?tbl) @ drop k ?tbl)[k := None] =
      map ?f (take k ?tbl) @ None # drop (Suc k) ?tbl"
    using len by (simp add: dr list_update_append)
  have step: "foldl (childTerminates_slot w) s [0..<Suc k] = childTerminates_slot w ?sk k"
    by simp
  have fr: "forePID (childTerminates_slot w ?sk k) = forePID s"
    "backgroundDisabled (childTerminates_slot w ?sk k) = backgroundDisabled s"
    "fds (childTerminates_slot w ?sk k) = fds s"
    by (subst sk, simp add: childTerminates_slot_def split: option.split prod.split)+
  have tb: "backProcs (childTerminates_slot w ?sk k) = map ?f (take (Suc k) ?tbl) @ drop (Suc k) ?tbl"
  proof (cases "?tbl ! k")
    case None
    with at bp dr show ?thesis
      by (simp add: childTerminates_slot_def tk)
  next
    case (Some proc)
    with at bp upd dr show ?thesis
      by (simp add: childTerminates_slot_def tk split: prod.split)
  qed
  have tr: "trace (childTerminates_slot w ?sk k) =
      trace s @ concat (map (reap_events w) (tracked (take (Suc k) ?tbl)))"
  proof (cases "?tbl ! k")
    case None
    with at trc show ?thesis
      by (simp add: childTerminates_slot_def tk tracked_append)
  next
    case (Some proc)
    with at trc show ?thesis
      by (simp add: childTerminates_slot_def tk tracked_append reap_events_def split: prod.split)
  qed
  show ?case
    unfolding step using fr tb tr by (intro shell.equality) simp_all
qed

text \<open>The whole handler, on a table of \<open>MAX_PROCS\<close> slots.\<close>

lemma childTerminates_table:
  assumes "length (backProcs s) = MAX_PROCS"
  shows "backProcs (childTerminates w s) =
           map (\<lambda>slot. case slot of
                         None \<Rightarrow> None
                       | Some proc \<Rightarrow> if 0 < fst (w (backPID proc)) then None else Some proc)
               (backProcs s)"
    and "trace (childTerminates w s) =
           trace s @ concat (map (reap_events w) (tracked (backProcs s)))"
    and "forePID (childTerminates w s) = forePID s"
    and "backgroundDisabled (childTerminates w s) = backgroundDisabled s"
    and "fds (childTerminates w s) = fds s"
proof -
  from assms have "MAX_PROCS \<le> length (backProcs s)" by simp
  note f = childTerminates_fold [OF this, of w, folded childTerminates_def]
  show "backProcs (childTerminates w s) =
           map (\<lambda>slot. case slot of
                         None \<Rightarrow> None
                       | Some proc \<Rightarrow> if 0 < fst (w (backPID proc)) then None else Some proc)
               (backProcs s)"
    by (subst f) (simp add: assms)
  show "trace (childTerminates w s) =
           trace s @ concat (map (reap_events w) (tracked (backProcs s)))"
    by (subst f) (simp add: assms)
  show "forePID (childTerminates w s) = forePID s"
    by (subst f) simp
  show "backgroundDisabled (childTerminates w s) = backgroundDisabled s"
    by (subst f) simp
  show "fds (childTerminates w s) = fds s"
    by (subst f) simp
qed

text \<open>Counting the tracked records.\<close>

lemma tracked_full: "None \<notin> set tbl \<Longrightarrow> length (tracked tbl) = length tbl"
  by (induction tbl rule: tracked.induct) simp_all

lemma tracked_length_le: "length (tracked tbl) \<le> length tbl"
  by (induction tbl rule: tracked.induct) simp_all

lemma empty_slot_exists:
  assumes "length (tracked tbl) < length tbl"
  shows "\<exists>j<length tbl. tbl ! j = None"
proof -
  from assms tracked_full [of tbl] have "None \<in> set tbl" by auto
  then show ?thesis by (auto simp: in_set_conv_nth)
qed

lemma saveProcess_scan_succeeds:
  "i \<le> j \<Longrightarrow> j < length tbl \<Longrightarrow> tbl ! j = None \<Longrightarrow> saveProcess_scan proc i tbl \<noteq> None"
proof (induction proc i tbl rule: saveProcess_scan.induct)
  case (1 proc i tbl)
  show ?case
  proof (cases "tbl ! i = None")
    case True
    with "1.prems" show ?thesis by (simp add: saveProcess_scan.simps)
  next
    case False
    with "1.prems" have "Suc i \<le> j" by (cases "i = j") auto
    with "1.IH" False "1.prems" have "saveProcess_scan proc (Suc i) tbl \<noteq> None"
      by simp
    with False "1.prems" show ?thesis by (simp add: saveProcess_scan.simps)
  qed
qed

lemma tracked_fill_slot:
  assumes "j < length tbl" and "tbl ! j = None"
  shows "length (tracked (tbl[j := Some proc])) = Suc (length (tracked tbl))"
proof -
  from assms have "tbl = take j tbl @ None # drop (Suc j) tbl"
    by (metis id_take_nth_drop)
  then have "length (tracked tbl) = length (tracked (take j tbl)) + length (tracked (drop (Suc j) tbl))"
    by (metis tracked_append tracked.simps(2) length_append)
  moreover from assms have "tbl[j := Some proc] = take j tbl @ Some proc # drop (Suc j) tbl"
    by (simp add: upd_conv_take_nth_drop)
  then have "length (tracked (tbl[j := Some proc])) =
      length (tracked (take j tbl)) + Suc (length (tracked (drop (Suc j) tbl)))"
    by (simp add: tracked_append)
  ultimately show ?thesis by simp
qed

lemma tracked_after_reaping:
  "length (tracked (map (\<lambda>slot. case slot of
                         None \<Rightarrow> None
                       | Some proc \<Rightarrow> if 0 < fst (w (backPID proc)) then None else Some proc) tbl))
   \<le> length (tracked tbl)"
  by (induction tbl rule: tracked.induct) auto

lemma all_reaped_empty:
  assumes "\<forall>proc \<in> set (tracked tbl). 0 < fst (w (backPID proc))"
  shows "map (\<lambda>slot. case slot of
                         None \<Rightarrow> None
                       | Some proc \<Rightarrow> if 0 < fst (w (backPID proc)) then None else Some proc) tbl
         = replicate (length tbl) None"
  using assms by (induction tbl rule: tracked.induct) auto

text \<open>
  From a table with as many empty slots as there are registrations to come, every
  registration finds a slot.
\<close>

lemma job_run_within_capacity:
  assumes "length (backProcs s) = MAX_PROCS"
      and "length (tracked (backProcs s)) + registrations es \<le> MAX_PROCS"
  shows "\<exists>s'. job_run es s = Some s' \<and> length (backProcs s') = MAX_PROCS
             \<and> length (tracked (backProcs s')) \<le> length (tracked (backProcs s)) + registrations es"
  using assms
proof (induction es s rule: job_run.induct)
  case (1 s)
  then show ?case by simp
next
  case (2 pid es s)
  let ?proc = "\<lparr>backPID = pid, active = True\<rparr>"
  from "2.prems" have "length (tracked (backProcs s)) < length (backProcs s)"
    by simp
  from empty_slot_exists [OF this] obtain j where "j < length (backProcs s)" "backProcs s ! j = None"
    by blast
  then have "saveProcess_scan ?proc 0 (backProcs s) \<noteq> None"
    using saveProcess_scan_succeeds [of 0 j "backProcs s" ?proc] by simp
  then obtain s' where s': "saveProcess pid s = Some s'"
    by (auto simp: saveProcess_def)
  from saveProcess_Some [OF s'] obtain i where i: "i < length (backProcs s)"
    "backProcs s ! i = None" "s' = s\<lparr>backProcs := (backProcs s)[i := Some ?proc]\<rparr>"
    by blast
  then have tl: "length (tracked (backProcs s')) = Suc (length (tracked (backProcs s)))"
    by (simp add: tracked_fill_slot)
  from i "2.prems" have len: "length (backProcs s') = MAX_PROCS" by simp
  from tl "2.prems" have "length (tracked (backProcs s')) + registrations es \<le> MAX_PROCS"
    by simp
  from "2.IH" [OF s' len this] tl s' show ?case by auto
next
  case (3 w es s)
  let ?s' = "childTerminates w s"
  from childTerminates_table(1) [OF "3.prems"(1), of w]
  have tb: "backProcs ?s' = map (\<lambda>slot. case slot of
                         None \<Rightarrow> None
                       | Some proc \<Rightarrow> if 0 < fst (w (backPID proc)) then None else Some proc)
               (backProcs s)" .
  then have len: "length (backProcs ?s') = MAX_PROCS"
    using "3.prems"(1) by simp
  from tb have tl: "length (tracked (backProcs ?s')) \<le> length (tracked (backProcs s))"
    by (simp add: tracked_after_reaping)
  with "3.prems" have "length (tracked (backProcs ?s')) + registrations (Sigchld w # es) \<le> MAX_PROCS"
    by simp
  then have "length (tracked (backProcs ?s')) + registrations es \<le> MAX_PROCS"
    by simp
  from "3.IH" [OF len this] tl show ?case by auto
qed

lemma reap_events_eq:
  "reap_events w = (\<lambda>proc. if 0 < fst (w (backPID proc))
                           then [Kill (backPID proc) SIGKILL,
                                 Write (done_line (fst (w (backPID proc))) (snd (w (backPID proc)))),
                                 Free (proc\<lparr>active := False\<rparr>)]
                           else [])"
  by (rule ext) (simp add: reap_events_def split: prod.split)

lemma initial_shell_table:
  "length (backProcs (initial_shell fds0)) = MAX_PROCS"
  "tracked (backProcs (initial_shell fds0)) = []"
  by (simp_all add: initial_shell_def tracked_replicate_None)

section \<open>Lemmas about wait statuses and descriptors\<close>

text \<open>\<open>WEXITSTATUS\<close> is the second byte of the status.\<close>

lemma WEXITSTATUS_div_mod: "WEXITSTATUS status = (status div 256) mod 256"
proof -
  have "(0xff00 :: int) = push_bit 8 (mask 8)"
    by (simp add: mask_eq_exp_minus_1 push_bit_eq_mult)
  then have "WEXITSTATUS status = drop_bit 8 (status AND push_bit 8 (mask 8))"
    by (simp add: WEXITSTATUS_def)
  also have "\<dots> = drop_bit 8 status AND mask 8"
    by (rule bit_eqI) (auto simp: bit_simps)
  also have "\<dots> = take_bit 8 (drop_bit 8 status)"
    by (simp add: take_bit_eq_mask)
  also have "\<dots> = (status div 256) mod 256"
    by (simp add: take_bit_eq_mod drop_bit_eq_div)
  finally show ?thesis .
qed

lemma WEXITSTATUS_small: "0 \<le> status \<Longrightarrow> status < 256 \<Longrightarrow> WEXITSTATUS status = 0"
  by (simp add: WEXITSTATUS_div_mod)

lemma W_EXITCODE_signal: "W_EXITCODE 0 sig = sig"
  by (simp add: W_EXITCODE_def)

lemma W_EXITCODE_exit: "W_EXITCODE code 0 = code * 256"
  by (simp add: W_EXITCODE_def push_bit_eq_mult)

lemma WEXITSTATUS_exit: "0 \<le> code \<Longrightarrow> code < 256 \<Longrightarrow> WEXITSTATUS (W_EXITCODE code 0) = code"
  by (simp add: WEXITSTATUS_div_mod W_EXITCODE_exit)

text \<open>A successful \<open>sys_dup\<close> takes a free descriptor for the description of an open one.\<close>

lemma first_free_Some:
  "first_free tbl = Some n \<Longrightarrow> n < length tbl \<and> tbl ! n = None"
proof (induction tbl arbitrary: n)
  case Nil
  then show ?case by simp
next
  case (Cons x xs)
  then show ?case
    by (cases "x = None") (auto split: if_splits)
qed

lemma sys_dup_success:
  assumes "sys_dup tbl fd = (r, tbl')" and "r \<noteq> - 1"
  shows "\<exists>n. r = int n \<and> n < length tbl \<and> tbl ! n = None \<and> fd < length tbl
             \<and> tbl ! fd \<noteq> None \<and> tbl' = tbl[n := tbl ! fd]"
proof (cases "is_open tbl (int fd)")
  case False
  with assms show ?thesis by (simp add: sys_dup_def)
next
  case True
  then have fd: "fd < length tbl" "tbl ! fd \<noteq> None"
    by (simp_all add: is_open_def)
  show ?thesis
  proof (cases "first_free tbl")
    case None
    with True assms show ?thesis by (simp add: sys_dup_def)
  next
    case (Some n)
    with True assms have "r = int n" "tbl' = tbl[n := tbl ! fd]"
      by (simp_all add: sys_dup_def)
    with first_free_Some [OF Some] fd show ?thesis by blast
  qed
qed

text \<open>
  Once both duplicates are made, descriptor 1 is as before, and so is descriptor 0 when it
  was open; each duplicate refers to what it was made from.
\<close>

lemma two_dups:
  assumes d1: "sys_dup tbl STDOUT_FILENO = (stdOut, t1)" and ok1: "stdOut \<noteq> - 1"
      and d2: "sys_dup t1 STDIN_FILENO = (stdIn, t2)" and ok2: "stdIn \<noteq> - 1"
  shows "is_open t2 stdIn \<and> is_open t2 stdOut
         \<and> STDIN_FILENO < length t2 \<and> STDOUT_FILENO < length t2
         \<and> t2 ! nat stdIn = t2 ! STDIN_FILENO \<and> t2 ! nat stdOut = t2 ! STDOUT_FILENO
         \<and> t2 ! STDOUT_FILENO = tbl ! STDOUT_FILENO
         \<and> (is_open tbl (int STDIN_FILENO) \<longrightarrow> t2 ! STDIN_FILENO = tbl ! STDIN_FILENO)"
proof -
  from sys_dup_success [OF d1 ok1] obtain n1 where n1:
    "stdOut = int n1" "n1 < length tbl" "tbl ! n1 = None" "1 < length tbl" "tbl ! 1 \<noteq> None"
    "t1 = tbl[n1 := tbl ! 1]"
    by (auto simp: STDOUT_FILENO_def)
  from sys_dup_success [OF d2 ok2] obtain n2 where n2:
    "stdIn = int n2" "n2 < length t1" "t1 ! n2 = None" "0 < length t1" "t1 ! 0 \<noteq> None"
    "t2 = t1[n2 := t1 ! 0]"
    by (auto simp: STDIN_FILENO_def)
  from n1 have ne1: "n1 \<noteq> 1" by auto
  have ne20: "n2 \<noteq> 0"
  proof
    assume "n2 = 0"
    with n2(3) n2(5) show False by simp
  qed
  from n1 ne1 have "t1 ! 1 \<noteq> None" "t1 ! n1 \<noteq> None" by simp_all
  with n2 have ne2: "n2 \<noteq> 1" "n2 \<noteq> n1" by auto
  from n1 n2 ne1 ne2 ne20 show ?thesis
    by (auto simp: is_open_def STDIN_FILENO_def STDOUT_FILENO_def nth_list_update)
qed

lemma sys_dup2_same: "tbl ! nat old = tbl ! new \<Longrightarrow> sys_dup2 tbl old new = tbl"
  by (simp add: sys_dup2_def list_update_same_conv)

lemma restore_stdio_fds:
  assumes "fds s ! nat stdIn = fds s ! STDIN_FILENO" and "fds s ! nat stdOut = fds s ! STDOUT_FILENO"
  shows "restore_stdio stdOut stdIn cur s =
     s\<lparr>trace := trace s
         @ (if inputFile cur \<noteq> None then [Dup2 stdIn STDIN_FILENO] else [])
         @ (if outputFile cur \<noteq> None then [Dup2 stdOut STDOUT_FILENO] else [])\<rparr>"
  using assms by (simp add: restore_stdio_def sys_dup2_same)

section \<open>Lemmas about the launcher\<close>

text \<open>What a call of \<open>runCommand\<close> that returns to the loop has done.\<close>

lemma runCommand_Return:
  assumes "spawnpid > 0" and "runCommand spawnpid wait_status cur s = Return v s1"
  shows "\<exists>stdOut stdIn t1 t2 s2.
           sys_dup (fds s) STDOUT_FILENO = (stdOut, t1) \<and> stdOut \<noteq> - 1
         \<and> sys_dup t1 STDIN_FILENO = (stdIn, t2) \<and> stdIn \<noteq> - 1
         \<and> (if background cur then
              map_option
                (\<lambda>s2. s2\<lparr>trace := trace s2 @
                   [Write (''background pid is '' @ show_int spawnpid @ ''\<newline>'')]\<rparr>)
                (saveProcess spawnpid (s\<lparr>fds := t2\<rparr>))
            else
              Some (s\<lparr>fds := t2, forePID := spawnpid,
                      exitStatus := (case wait_status of
                                       Some status \<Rightarrow> status
                                     | None \<Rightarrow> exitStatus s)\<rparr>)) = Some s2
         \<and> s1 = restore_stdio stdOut stdIn cur s2
         \<and> v = WEXITSTATUS (exitStatus s1)"
proof -
  obtain stdOut t1 where d1: "sys_dup (fds s) STDOUT_FILENO = (stdOut, t1)"
    by (cases "sys_dup (fds s) STDOUT_FILENO")
  obtain stdIn t2 where d2: "sys_dup t1 STDIN_FILENO = (stdIn, t2)"
    by (cases "sys_dup t1 STDIN_FILENO")
  from assms d1 d2 have ok: "stdOut \<noteq> - 1" "stdIn \<noteq> - 1"
    by (auto simp: runCommand_def split: if_splits)
  with assms d1 d2 show ?thesis
    by (auto simp: runCommand_def Let_def split: option.splits if_splits)
qed

lemma restore_stdio_exitStatus: "exitStatus (restore_stdio stdOut stdIn cur s) = exitStatus s"
  by (simp add: restore_stdio_def)

lemma tokens_status_line: "tokens ''status\<newline>'' = [''status'']"
  by code_simp

lemma dispatch_status:
  "dispatch os ''status\<newline>'' s =
     Return () (s\<lparr>trace := trace s @ [Write (''exit value '' @ show_int (exitStatus s) @ ''\<newline>'')]\<rparr>)"
  by (simp add: dispatch_def getCommand_def tokens_status_line new_command_def isComment_def
      printStatus_def)

lemma show_int_0: "show_int 0 = ''0''"
  by (simp add: show_int_def dec_digits.simps digit_char_def)

lemma tokens_sleep_line: "tokens ''sleep 100\<newline>'' = [''sleep'', ''100'']"
  by code_simp

lemma show_int_7: "show_int 7 = ''7''"
  by (simp add: show_int_def dec_digits.simps digit_char_def)

lemma dispatch_sleep_foreground:
  "dispatch \<lparr>getpid_ret = 4242, fork_ret = 100, waitpid_status = Some w, chdir_ret = 0\<rparr>
     ''sleep 100\<newline>'' (initial_shell std_fds) =
   Return () ((initial_shell std_fds)
     \<lparr>forePID := 100, exitStatus := WEXITSTATUS w,
      fds := [Some 0, Some 0, Some 0, Some 0, Some 0, None, None, None]\<rparr>)"
  by (simp add: dispatch_def getCommand_def tokens_sleep_line new_command_def isComment_def
      runCommand_def sys_dup_def is_open_def std_fds_def initial_shell_def STDOUT_FILENO_def
      STDIN_FILENO_def restore_stdio_def)

lemma restore_stdio_frame:
  "exitStatus (restore_stdio stdOut stdIn cur s) = exitStatus s"
  "backProcs (restore_stdio stdOut stdIn cur s) = backProcs s"
  "forePID (restore_stdio stdOut stdIn cur s) = forePID s"
  by (simp_all add: restore_stdio_def)

text \<open>
  Events that launch and reap nothing leave the recorded status alone.
\<close>

lemma tracked_nth: "i < length tbl \<Longrightarrow> tbl ! i = Some proc \<Longrightarrow> proc \<in> set (tracked tbl)"
proof (induction tbl arbitrary: i rule: tracked.induct)
  case 1
  then show ?case by simp
next
  case (2 tbl)
  then show ?case by (cases i) auto
next
  case (3 p tbl)
  then show ?case by (cases i) auto
qed

lemma foldl_fixed: "(\<And>x. x \<in> set xs \<Longrightarrow> f s x = s) \<Longrightarrow> foldl f s xs = s"
  by (induction xs) simp_all

lemma childTerminates_nothing:
  assumes len: "length (backProcs s) = MAX_PROCS"
      and none: "\<forall>proc \<in> set (tracked (backProcs s)). fst (w (backPID proc)) \<le> 0"
  shows "childTerminates w s = s"
  unfolding childTerminates_def
proof (rule foldl_fixed)
  fix i assume "i \<in> set [0..<MAX_PROCS]"
  with len have i: "i < length (backProcs s)" by simp
  show "childTerminates_slot w s i = s"
  proof (cases "backProcs s ! i")
    case None
    then show ?thesis by (simp add: childTerminates_slot_def)
  next
    case (Some proc)
    with i have "proc \<in> set (tracked (backProcs s))" by (simp add: tracked_nth)
    with none have "\<not> 0 < fst (w (backPID proc))" by auto
    with Some show ?thesis
      by (cases "w (backPID proc)") (simp add: childTerminates_slot_def)
  qed
qed

lemma quiet_step:
  assumes "length (backProcs s) = MAX_PROCS" and "quiet e s"
  shows "\<exists>s'. shell_step e s = Return () s' \<and> exitStatus s' = exitStatus s
              \<and> length (backProcs s') = MAX_PROCS"
proof (cases e)
  case (Input os buffer)
  with assms show ?thesis
    by (auto simp: runShell_iteration_def dispatch_def changeDir_def printStatus_def Let_def
        split: list.splits)
next
  case (Chld w)
  with assms show ?thesis by (simp add: childTerminates_nothing)
next
  case Tstp
  with assms show ?thesis by (simp add: disableBackground_def)
next
  case (Intr n)
  with assms show ?thesis by (simp add: interruptSignal_def)
qed

lemma quiet_run_status:
  assumes "length (backProcs s) = MAX_PROCS" and "quiet_run es s"
  shows "\<exists>s'. shell_run es s = Return () s' \<and> exitStatus s' = exitStatus s"
  using assms
proof (induction es arbitrary: s)
  case Nil
  then show ?case by simp
next
  case (Cons e es)
  from Cons.prems have q: "quiet e s" by simp
  from quiet_step [OF Cons.prems(1) q] obtain s1 where
    s1: "shell_step e s = Return () s1" "exitStatus s1 = exitStatus s"
        "length (backProcs s1) = MAX_PROCS"
    by blast
  with Cons.prems have "quiet_run es s1" by simp
  from Cons.IH [OF s1(3) this] s1 show ?case by auto
qed

text \<open>
  The calling process's side of \<open>runCommand\<close>. When both \<^verbatim>\<open>dup\<close> calls succeed, the fork gives
  a child and, for a background command, the table has an empty slot, the call returns to
  the loop.
\<close>

lemma runCommand_parent_returns:
  assumes d1: "sys_dup (fds s) STDOUT_FILENO = (stdOut, t1)" and ok1: "stdOut \<noteq> - 1"
      and d2: "sys_dup t1 STDIN_FILENO = (stdIn, t2)" and ok2: "stdIn \<noteq> - 1"
      and pid: "spawnpid > 0"
      and room: "background cur \<longrightarrow> (\<exists>j<length (backProcs s). backProcs s ! j = None)"
  shows "\<exists>v s1. runCommand spawnpid wait_status cur s = Return v s1"
proof (cases "background cur")
  case False
  with d1 d2 ok1 ok2 pid show ?thesis
    by (simp add: runCommand_def Let_def)
next
  case True
  with room obtain j where "j < length (backProcs s)" "backProcs s ! j = None"
    by blast
  then have "saveProcess_scan \<lparr>backPID = spawnpid, active = True\<rparr> 0 (backProcs s) \<noteq> None"
    using saveProcess_scan_succeeds [of 0 j "backProcs s"] by simp
  then obtain s2 where "saveProcess spawnpid (s\<lparr>fds := t2\<rparr>) = Some s2"
    by (auto simp: saveProcess_def)
  with True d1 d2 ok1 ok2 pid show ?thesis
    by (simp add: runCommand_def Let_def)
qed

text \<open>
  And when it returns after a fork that gave a child: a background job has been written to
  a slot that was empty, its pid reported, the recorded status and the foreground pid left
  alone, and the value returned is \<open>WEXITSTATUS\<close> of the recorded status; in both branches
  \<^verbatim>\<open>dup2(stdIn, 0)\<close> follows exactly when an input file was given and \<^verbatim>\<open>dup2(stdOut, 1)\<close>
  exactly when an output file was given, and descriptors 0 and 1 refer to what their saved
  duplicates refer to, descriptor 1 to what it referred to at the call, and so does
  descriptor 0 when it was open at the call.
\<close>

lemma runCommand_parent_effects:
  assumes "spawnpid > 0" and "runCommand spawnpid wait_status cur s = Return v s1"
  shows "\<exists>stdOut stdIn t1 t2.
       sys_dup (fds s) STDOUT_FILENO = (stdOut, t1) \<and> sys_dup t1 STDIN_FILENO = (stdIn, t2)
     \<and> stdOut \<noteq> - 1 \<and> stdIn \<noteq> - 1
     \<and> (background cur \<longrightarrow>
          (\<exists>j<length (backProcs s). backProcs s ! j = None
             \<and> backProcs s1 = (backProcs s)[j := Some \<lparr>backPID = spawnpid, active = True\<rparr>])
          \<and> v = WEXITSTATUS (exitStatus s) \<and> exitStatus s1 = exitStatus s
          \<and> forePID s1 = forePID s
          \<and> (0 \<le> exitStatus s \<and> exitStatus s < 256 \<longrightarrow> v = 0))
     \<and> trace s1 = trace s
          @ (if background cur
             then [Write (''background pid is '' @ show_int spawnpid @ ''\<newline>'')] else [])
          @ (if inputFile cur \<noteq> None then [Dup2 stdIn STDIN_FILENO] else [])
          @ (if outputFile cur \<noteq> None then [Dup2 stdOut STDOUT_FILENO] else [])
     \<and> fds s1 = t2
     \<and> fds s1 ! STDIN_FILENO = fds s1 ! nat stdIn
     \<and> fds s1 ! STDOUT_FILENO = fds s1 ! nat stdOut
     \<and> fds s1 ! STDOUT_FILENO = fds s ! STDOUT_FILENO
     \<and> (is_open (fds s) (int STDIN_FILENO) \<longrightarrow> fds s1 ! STDIN_FILENO = fds s ! STDIN_FILENO)"
proof -
  from runCommand_Return [OF assms] obtain stdOut stdIn t1 t2 s2 where
    d1: "sys_dup (fds s) STDOUT_FILENO = (stdOut, t1)" and ok1: "stdOut \<noteq> - 1"
    and d2: "sys_dup t1 STDIN_FILENO = (stdIn, t2)" and ok2: "stdIn \<noteq> - 1"
    and s2: "(if background cur then
              map_option
                (\<lambda>s2. s2\<lparr>trace := trace s2 @
                   [Write (''background pid is '' @ show_int spawnpid @ ''\<newline>'')]\<rparr>)
                (saveProcess spawnpid (s\<lparr>fds := t2\<rparr>))
            else
              Some (s\<lparr>fds := t2, forePID := spawnpid,
                      exitStatus := (case wait_status of
                                       Some status \<Rightarrow> status
                                     | None \<Rightarrow> exitStatus s)\<rparr>)) = Some s2"
    and s1: "s1 = restore_stdio stdOut stdIn cur s2"
    and v: "v = WEXITSTATUS (exitStatus s1)"
    by blast
  note dups = two_dups [OF d1 ok1 d2 ok2]
  have fds2: "fds s2 = t2" and tr2: "trace s2 = trace s
          @ (if background cur
             then [Write (''background pid is '' @ show_int spawnpid @ ''\<newline>'')] else [])"
    using s2 by (auto split: if_splits dest!: saveProcess_Some)
  from dups fds2 have same: "fds s2 ! nat stdIn = fds s2 ! STDIN_FILENO"
    "fds s2 ! nat stdOut = fds s2 ! STDOUT_FILENO"
    by simp_all
  from restore_stdio_fds [OF same] s1
  have s1': "s1 = s2\<lparr>trace := trace s2
         @ (if inputFile cur \<noteq> None then [Dup2 stdIn STDIN_FILENO] else [])
         @ (if outputFile cur \<noteq> None then [Dup2 stdOut STDOUT_FILENO] else [])\<rparr>"
    by simp
  have bg: "(\<exists>j<length (backProcs s). backProcs s ! j = None
             \<and> backProcs s1 = (backProcs s)[j := Some \<lparr>backPID = spawnpid, active = True\<rparr>])
          \<and> v = WEXITSTATUS (exitStatus s) \<and> exitStatus s1 = exitStatus s
          \<and> forePID s1 = forePID s
          \<and> (0 \<le> exitStatus s \<and> exitStatus s < 256 \<longrightarrow> v = 0)"
    if "background cur"
  proof -
    from that s2 obtain s3 where sv: "saveProcess spawnpid (s\<lparr>fds := t2\<rparr>) = Some s3"
      and s23: "s2 = s3\<lparr>trace := trace s3 @
                   [Write (''background pid is '' @ show_int spawnpid @ ''\<newline>'')]\<rparr>"
      by auto
    from saveProcess_Some [OF sv] obtain j where j: "j < length (backProcs s)"
      "backProcs s ! j = None"
      "s3 = s\<lparr>fds := t2, backProcs := (backProcs s)[j := Some \<lparr>backPID = spawnpid, active = True\<rparr>]\<rparr>"
      by auto
    from j s23 s1' have "backProcs s1 = (backProcs s)[j := Some \<lparr>backPID = spawnpid, active = True\<rparr>]"
      and es: "exitStatus s1 = exitStatus s" and "forePID s1 = forePID s"
      by simp_all
    moreover from v es have "v = WEXITSTATUS (exitStatus s)" by simp
    moreover have "v = 0" if "0 \<le> exitStatus s \<and> exitStatus s < 256"
      using that v es by (simp add: WEXITSTATUS_small)
    ultimately show ?thesis using j by blast
  qed
  have tr: "trace s1 = trace s
          @ (if background cur
             then [Write (''background pid is '' @ show_int spawnpid @ ''\<newline>'')] else [])
          @ (if inputFile cur \<noteq> None then [Dup2 stdIn STDIN_FILENO] else [])
          @ (if outputFile cur \<noteq> None then [Dup2 stdOut STDOUT_FILENO] else [])"
    using s1' tr2 by simp
  have f1: "fds s1 = t2" using s1' fds2 by simp
  with dups have f2: "fds s1 ! STDIN_FILENO = fds s1 ! nat stdIn"
    "fds s1 ! STDOUT_FILENO = fds s1 ! nat stdOut"
    "fds s1 ! STDOUT_FILENO = fds s ! STDOUT_FILENO"
    "is_open (fds s) (int STDIN_FILENO) \<longrightarrow> fds s1 ! STDIN_FILENO = fds s ! STDIN_FILENO"
    by simp_all
  from d1 d2 ok1 ok2 bg tr f1 f2 show ?thesis by blast
qed

section \<open>The claims\<close>

subsection \<open>C1: \<^verbatim>\<open>status\<close> after a foreground command\<close>

text \<open>
  C1, as amended. The claim has \<^verbatim>\<open>status\<close> reflect the signal that killed a foreground
  command; the code keeps the exit code byte of the wait status only. When a line is
  dispatched as a foreground command (its first argument is no built-in, the fork gives a
  child, and the call comes back to the loop) and the child's wait status is \<open>w\<close>, the
  status recorded is \<open>WEXITSTATUS w\<close>. A \<^verbatim>\<open>status\<close> line dispatched next writes \<^verbatim>\<open>exit value\<close>
  with that number: the exit code for a child that exited, and 0 for a child killed by a
  signal, whatever the signal. \<^verbatim>\<open>printStatus\<close> makes no distinction between exit codes and
  signals. The same holds for a \<^verbatim>\<open>status\<close> line dispatched later, after any run of events
  that launch no command and reap no job: lines that leave no argument, \<^verbatim>\<open>cd\<close> and \<^verbatim>\<open>status\<close>
  lines, runs of the \<^verbatim>\<open>SIGCHLD\<close> handler in which \<^verbatim>\<open>waitpid\<close> returns no pid, and the other two
  handlers (the job table having its \<open>MAX_PROCS\<close> slots, as in every state of the running
  shell). Any launch in between, of a background command too, writes the recorded status
  anew, and so does a handler run that reaps a job.
\<close>

theorem C1_status_after_foreground:
  assumes cur: "getCommand (getpid_ret os) (backgroundDisabled s) buffer new_command = cur"
      and arg0: "args cur = arg0 # others" "arg0 \<noteq> ''exit''" "arg0 \<noteq> ''cd''" "arg0 \<noteq> ''status''"
      and fg: "\<not> background cur"
      and spawn: "fork_ret os > 0" "waitpid_status os = Some w"
      and ret: "dispatch os buffer s = Return () s1"
  shows "exitStatus s1 = WEXITSTATUS w
         \<and> dispatch os' ''status\<newline>'' s1 =
             Return () (s1\<lparr>trace := trace s1 @
               [Write (''exit value '' @ show_int (WEXITSTATUS w) @ ''\<newline>'')]\<rparr>)
         \<and> (0 \<le> code \<and> code < 256 \<and> w = W_EXITCODE code 0 \<longrightarrow> exitStatus s1 = code)
         \<and> (0 \<le> sig \<and> sig < 256 \<and> w = W_EXITCODE 0 sig \<longrightarrow>
              dispatch os' ''status\<newline>'' s1 =
                Return () (s1\<lparr>trace := trace s1 @ [Write ''exit value 0\<newline>'']\<rparr>))
         \<and> (length (backProcs s1) = MAX_PROCS \<and> quiet_run es s1 \<longrightarrow>
              (\<exists>s2. shell_run es s1 = Return () s2
                 \<and> exitStatus s2 = WEXITSTATUS w
                 \<and> dispatch os' ''status\<newline>'' s2 =
                     Return () (s2\<lparr>trace := trace s2 @
                       [Write (''exit value '' @ show_int (WEXITSTATUS w) @ ''\<newline>'')]\<rparr>)))"
proof -
  from ret cur arg0 obtain v s' where
    rc: "runCommand (fork_ret os) (waitpid_status os) cur s = Return v s'"
    and s1: "s1 = s'\<lparr>exitStatus := v\<rparr>"
    by (auto simp: dispatch_def split: result.splits)
  from runCommand_Return [OF spawn(1) rc] fg spawn(2) obtain stdOut stdIn t2 where
    "s' = restore_stdio stdOut stdIn cur
            (s\<lparr>fds := t2, forePID := fork_ret os, exitStatus := w\<rparr>)"
    and v: "v = WEXITSTATUS (exitStatus s')"
    by auto
  then have "exitStatus s' = w"
    by (simp add: restore_stdio_exitStatus)
  with v s1 have es: "exitStatus s1 = WEXITSTATUS w" by simp
  have st: "dispatch os' ''status\<newline>'' s1 =
             Return () (s1\<lparr>trace := trace s1 @
               [Write (''exit value '' @ show_int (WEXITSTATUS w) @ ''\<newline>'')]\<rparr>)"
    by (simp add: dispatch_status es)
  have ex: "exitStatus s1 = code" if "0 \<le> code \<and> code < 256 \<and> w = W_EXITCODE code 0"
    using that es by (simp add: WEXITSTATUS_exit)
  have sg: "dispatch os' ''status\<newline>'' s1 =
                Return () (s1\<lparr>trace := trace s1 @ [Write ''exit value 0\<newline>'']\<rparr>)"
    if "0 \<le> sig \<and> sig < 256 \<and> w = W_EXITCODE 0 sig"
  proof -
    from that have "WEXITSTATUS w = 0"
      by (simp add: W_EXITCODE_signal WEXITSTATUS_small)
    with st show ?thesis by (simp add: show_int_0)
  qed
  have later: "\<exists>s2. shell_run es s1 = Return () s2
                 \<and> exitStatus s2 = WEXITSTATUS w
                 \<and> dispatch os' ''status\<newline>'' s2 =
                     Return () (s2\<lparr>trace := trace s2 @
                       [Write (''exit value '' @ show_int (WEXITSTATUS w) @ ''\<newline>'')]\<rparr>)"
    if "length (backProcs s1) = MAX_PROCS \<and> quiet_run es s1"
  proof -
    from that quiet_run_status [of s1 es] obtain s2 where
      s2: "shell_run es s1 = Return () s2" "exitStatus s2 = exitStatus s1"
      by blast
    with es have "exitStatus s2 = WEXITSTATUS w" by simp
    with s2 show ?thesis by (simp add: dispatch_status)
  qed
  from es st ex sg later show ?thesis by blast
qed

theorem C1_status_after_foreground_witness:
  "getCommand 4242 (backgroundDisabled (initial_shell std_fds)) ''sleep 100\<newline>'' new_command =
     \<lparr>args = [''sleep'', ''100''], inputFile = None, outputFile = None, background = False\<rparr>
   \<and> dispatch \<lparr>getpid_ret = 4242, fork_ret = 100, waitpid_status = Some (W_EXITCODE 7 0), chdir_ret = 0\<rparr>
       ''sleep 100\<newline>'' (initial_shell std_fds) =
     Return () ((initial_shell std_fds)
       \<lparr>forePID := 100, exitStatus := 7,
        fds := [Some 0, Some 0, Some 0, Some 0, Some 0, None, None, None]\<rparr>)
   \<and> dispatch \<lparr>getpid_ret = 4242, fork_ret = 100, waitpid_status = None, chdir_ret = 0\<rparr>
       ''status\<newline>''
       ((initial_shell std_fds)
         \<lparr>forePID := 100, exitStatus := 7,
          fds := [Some 0, Some 0, Some 0, Some 0, Some 0, None, None, None]\<rparr>) =
     Return () ((initial_shell std_fds)
       \<lparr>forePID := 100, exitStatus := 7,
        fds := [Some 0, Some 0, Some 0, Some 0, Some 0, None, None, None],
        trace := [Write ''exit value 7\<newline>'']\<rparr>)
   \<and> quiet_run
       [Input \<lparr>getpid_ret = 4242, fork_ret = 101, waitpid_status = None, chdir_ret = 0\<rparr> ''\<newline>'',
        Chld (\<lambda>p. (0, 0)), Tstp,
        Input \<lparr>getpid_ret = 4242, fork_ret = 101, waitpid_status = None, chdir_ret = 0\<rparr> ''cd\<newline>'']
       ((initial_shell std_fds)
         \<lparr>forePID := 100, exitStatus := 7,
          fds := [Some 0, Some 0, Some 0, Some 0, Some 0, None, None, None]\<rparr>)
   \<and> shell_run
       [Input \<lparr>getpid_ret = 4242, fork_ret = 101, waitpid_status = None, chdir_ret = 0\<rparr> ''\<newline>'',
        Chld (\<lambda>p. (0, 0)), Tstp,
        Input \<lparr>getpid_ret = 4242, fork_ret = 101, waitpid_status = None, chdir_ret = 0\<rparr> ''cd\<newline>'']
       ((initial_shell std_fds)
         \<lparr>forePID := 100, exitStatus := 7,
          fds := [Some 0, Some 0, Some 0, Some 0, Some 0, None, None, None]\<rparr>) =
     Return () ((initial_shell std_fds)
       \<lparr>forePID := 100, exitStatus := 7, backgroundDisabled := True,
        fds := [Some 0, Some 0, Some 0, Some 0, Some 0, None, None, None],
        trace := [Write '': '', Write ''Entering foreground-only mode (& is now ignored)\<newline>'',
                  Write '': '', Chdir None]\<rparr>)
   \<and> dispatch \<lparr>getpid_ret = 4242, fork_ret = 100, waitpid_status = None, chdir_ret = 0\<rparr>
       ''status\<newline>''
       ((initial_shell std_fds)
         \<lparr>forePID := 100, exitStatus := 7, backgroundDisabled := True,
          fds := [Some 0, Some 0, Some 0, Some 0, Some 0, None, None, None],
          trace := [Write '': '', Write ''Entering foreground-only mode (& is now ignored)\<newline>'',
                    Write '': '', Chdir None]\<rparr>) =
     Return () ((initial_shell std_fds)
       \<lparr>forePID := 100, exitStatus := 7, backgroundDisabled := True,
        fds := [Some 0, Some 0, Some 0, Some 0, Some 0, None, None, None],
        trace := [Write '': '', Write ''Entering foreground-only mode (& is now ignored)\<newline>'',
                  Write '': '', Chdir None, Write ''exit value 7\<newline>'']\<rparr>)"
proof -
  let ?os = "\<lparr>getpid_ret = 4242, fork_ret = 100, waitpid_status = Some (W_EXITCODE 7 0), chdir_ret = 0\<rparr>"
  let ?os' = "\<lparr>getpid_ret = 4242, fork_ret = 100, waitpid_status = None, chdir_ret = 0\<rparr>"
  let ?os2 = "\<lparr>getpid_ret = 4242, fork_ret = 101, waitpid_status = None, chdir_ret = 0\<rparr>"
  let ?cur = "\<lparr>args = [''sleep'', ''100''], inputFile = None, outputFile = None, background = False\<rparr>"
  let ?s1 = "(initial_shell std_fds)
       \<lparr>forePID := 100, exitStatus := 7,
        fds := [Some 0, Some 0, Some 0, Some 0, Some 0, None, None, None]\<rparr>"
  let ?es = "[Input ?os2 ''\<newline>'', Chld (\<lambda>p. (0, 0)), Tstp, Input ?os2 ''cd\<newline>'']"
  let ?s2 = "(initial_shell std_fds)
       \<lparr>forePID := 100, exitStatus := 7, backgroundDisabled := True,
        fds := [Some 0, Some 0, Some 0, Some 0, Some 0, None, None, None],
        trace := [Write '': '', Write ''Entering foreground-only mode (& is now ignored)\<newline>'',
                  Write '': '', Chdir None]\<rparr>"
  have w7: "WEXITSTATUS (W_EXITCODE 7 0) = 7"
    by (simp add: WEXITSTATUS_exit)
  have cur: "getCommand (getpid_ret ?os) (backgroundDisabled (initial_shell std_fds))
      ''sleep 100\<newline>'' new_command = ?cur"
    by (simp add: getCommand_def tokens_sleep_line new_command_def isComment_def)
  have ret: "dispatch ?os ''sleep 100\<newline>'' (initial_shell std_fds) = Return () ?s1"
    by (simp add: dispatch_sleep_foreground w7)
  have len: "length (backProcs ?s1) = MAX_PROCS"
    by (simp add: initial_shell_def)
  have q: "quiet_run ?es ?s1"
    by code_simp
  have run: "shell_run ?es ?s1 = Return () ?s2"
    by code_simp
  have a0: "args ?cur = ''sleep'' # [''100'']" by simp
  have nb: "''sleep'' \<noteq> ''exit''" "''sleep'' \<noteq> ''cd''" "''sleep'' \<noteq> ''status''" by simp_all
  have fg: "\<not> background ?cur" by simp
  have sp: "fork_ret ?os > 0" "waitpid_status ?os = Some (W_EXITCODE 7 0)" by simp_all
  note t = C1_status_after_foreground [OF cur a0 nb fg sp ret, where os' = ?os' and es = ?es]
  note now = t [THEN conjunct2, THEN conjunct1]
  from now have now': "dispatch ?os' ''status\<newline>'' ?s1 =
      Return () (?s1\<lparr>trace := [Write ''exit value 7\<newline>'']\<rparr>)"
    by (simp add: w7 show_int_7 initial_shell_def)
  from len q have "length (backProcs ?s1) = MAX_PROCS \<and> quiet_run ?es ?s1" ..
  with t [THEN conjunct2, THEN conjunct2, THEN conjunct2, THEN conjunct2]
  have "\<exists>s2. shell_run ?es ?s1 = Return () s2
                 \<and> exitStatus s2 = WEXITSTATUS (W_EXITCODE 7 0)
                 \<and> dispatch ?os' ''status\<newline>'' s2 =
                     Return () (s2\<lparr>trace := trace s2 @
                       [Write (''exit value '' @ show_int (WEXITSTATUS (W_EXITCODE 7 0)) @ ''\<newline>'')]\<rparr>)"
    by (rule mp)
  then obtain s2 where s2: "shell_run ?es ?s1 = Return () s2"
    and st: "dispatch ?os' ''status\<newline>'' s2 =
                     Return () (s2\<lparr>trace := trace s2 @
                       [Write (''exit value '' @ show_int (WEXITSTATUS (W_EXITCODE 7 0)) @ ''\<newline>'')]\<rparr>)"
    by blast
  from s2 run have "s2 = ?s2" by simp
  with st have later: "dispatch ?os' ''status\<newline>'' ?s2 =
      Return () (?s2\<lparr>trace := trace ?s2 @ [Write ''exit value 7\<newline>'']\<rparr>)"
    by (simp add: w7 show_int_7)
  then have later': "dispatch ?os' ''status\<newline>'' ?s2 =
      Return () ((initial_shell std_fds)
       \<lparr>forePID := 100, exitStatus := 7, backgroundDisabled := True,
        fds := [Some 0, Some 0, Some 0, Some 0, Some 0, None, None, None],
        trace := [Write '': '', Write ''Entering foreground-only mode (& is now ignored)\<newline>'',
                  Write '': '', Chdir None, Write ''exit value 7\<newline>'']\<rparr>)"
    by simp
  from cur ret now' q run later' show ?thesis by simp
qed

text \<open>
  The claim as stated fails for a foreground command killed by signal 15, and the same
  for signal 9: the status recorded is 0 and \<^verbatim>\<open>status\<close> writes \<^verbatim>\<open>exit value 0\<close>, the line of a
  command that exited with code 0.
\<close>

theorem C1_signal_counterexample:
  "dispatch \<lparr>getpid_ret = 4242, fork_ret = 100, waitpid_status = Some (W_EXITCODE 0 15), chdir_ret = 0\<rparr>
       ''sleep 100\<newline>'' (initial_shell std_fds) =
     Return () ((initial_shell std_fds)
       \<lparr>forePID := 100, exitStatus := 0,
        fds := [Some 0, Some 0, Some 0, Some 0, Some 0, None, None, None]\<rparr>)
   \<and> dispatch \<lparr>getpid_ret = 4242, fork_ret = 100, waitpid_status = Some (W_EXITCODE 0 9), chdir_ret = 0\<rparr>
       ''sleep 100\<newline>'' (initial_shell std_fds) =
     Return () ((initial_shell std_fds)
       \<lparr>forePID := 100, exitStatus := 0,
        fds := [Some 0, Some 0, Some 0, Some 0, Some 0, None, None, None]\<rparr>)
   \<and> dispatch \<lparr>getpid_ret = 4242, fork_ret = 101, waitpid_status = None, chdir_ret = 0\<rparr>
       ''status\<newline>''
       ((initial_shell std_fds)
         \<lparr>forePID := 100, exitStatus := 0,
          fds := [Some 0, Some 0, Some 0, Some 0, Some 0, None, None, None]\<rparr>) =
     Return () ((initial_shell std_fds)
       \<lparr>forePID := 100, exitStatus := 0,
        fds := [Some 0, Some 0, Some 0, Some 0, Some 0, None, None, None],
        trace := [Write ''exit value 0\<newline>'']\<rparr>)"
proof -
  have w: "WEXITSTATUS (W_EXITCODE 0 15) = 0" "WEXITSTATUS (W_EXITCODE 0 9) = 0"
    by (simp_all add: W_EXITCODE_signal WEXITSTATUS_small)
  have t0: "trace (initial_shell std_fds) = []"
    by (simp add: initial_shell_def)
  show ?thesis
    by (simp add: dispatch_sleep_foreground w dispatch_status show_int_0 t0)
qed

subsection \<open>C2: what a background launch returns\<close>

text \<open>
  C2, at the input where the code departs from it. \<^verbatim>\<open>runCommand\<close> ends, for both branches,
  in \<^verbatim>\<open>return WEXITSTATUS(exitStatus)\<close>, commented as returning the child's exit status; the
  background branch has not written \<^verbatim>\<open>exitStatus\<close>, so the value belongs to whatever process
  wrote the global last. From the initial state the line \<^verbatim>\<open>false &\<close> is launched as pid 100
  (the launch returns 0, slot 0 holds the job, the pid is reported). The child exits with
  code 1 and the handler of \<^verbatim>\<open>SIGCHLD\<close> reaps it, which leaves its wait status 256 in
  \<^verbatim>\<open>exitStatus\<close>. The launch of the next background command, pid 101, then returns 1, where
  the claim has 0; the job is registered and its pid reported as the claim says.
\<close>

theorem C2_background_return_evaluated:
  "dispatch \<lparr>getpid_ret = 4242, fork_ret = 100, waitpid_status = None, chdir_ret = 0\<rparr>
      ''false &\<newline>'' (initial_shell std_fds) =
     Return () ((initial_shell std_fds)
       \<lparr>backProcs := (replicate MAX_PROCS None)[0 := Some \<lparr>backPID = 100, active = True\<rparr>],
        fds := [Some 0, Some 0, Some 0, Some 0, Some 0, None, None, None],
        trace := [Write ''background pid is 100\<newline>'']\<rparr>)
   \<and> childTerminates (\<lambda>p. (p, W_EXITCODE 1 0))
       ((initial_shell std_fds)
         \<lparr>backProcs := (replicate MAX_PROCS None)[0 := Some \<lparr>backPID = 100, active = True\<rparr>],
          fds := [Some 0, Some 0, Some 0, Some 0, Some 0, None, None, None],
          trace := [Write ''background pid is 100\<newline>'']\<rparr>) =
     (initial_shell std_fds)
       \<lparr>exitStatus := 256,
        fds := [Some 0, Some 0, Some 0, Some 0, Some 0, None, None, None],
        trace := [Write ''background pid is 100\<newline>'', Kill 100 9,
                  Write ''background pid 100 is done: terminated by signal 256\<newline>'',
                  Free \<lparr>backPID = 100, active = False\<rparr>]\<rparr>
   \<and> runCommand 101 None
        \<lparr>args = [''sleep'', ''5''], inputFile = None, outputFile = None, background = True\<rparr>
        ((initial_shell std_fds)
          \<lparr>exitStatus := 256,
           fds := [Some 0, Some 0, Some 0, Some 0, Some 0, None, None, None],
           trace := [Write ''background pid is 100\<newline>'', Kill 100 9,
                     Write ''background pid 100 is done: terminated by signal 256\<newline>'',
                     Free \<lparr>backPID = 100, active = False\<rparr>]\<rparr>) =
       Return 1 ((initial_shell std_fds)
         \<lparr>backProcs := (replicate MAX_PROCS None)[0 := Some \<lparr>backPID = 101, active = True\<rparr>],
          exitStatus := 256,
          fds := [Some 0, Some 0, Some 0, Some 0, Some 0, Some 0, Some 0, None],
          trace := [Write ''background pid is 100\<newline>'', Kill 100 9,
                    Write ''background pid 100 is done: terminated by signal 256\<newline>'',
                    Free \<lparr>backPID = 100, active = False\<rparr>,
                    Write ''background pid is 101\<newline>'']\<rparr>)"
  by code_simp

subsection \<open>C3: the job table and the reaper\<close>

text \<open>
  C3. Take any sequence of registrations and runs of the \<^verbatim>\<open>SIGCHLD\<close> handler from the
  shell's initial state, with at most \<open>MAX_PROCS\<close> = 50 registrations. Then no registration
  runs off the table, and in the state \<open>s\<close> reached, which has its 50 slots and at most as
  many tracked jobs as registrations:
  \<^item> a run of the handler, \<^verbatim>\<open>waitpid\<close> answering \<open>w\<close>, empties every slot whose process \<open>w\<close>
    reports as terminated (a positive return value) and leaves every other slot as it
    is, the empty ones and those whose process is still running;
  \<^item> for each record reaped, in slot order, it sends the \<^verbatim>\<open>kill\<close>, writes one notification
    line and frees the record, marked inactive; it writes nothing else;
  \<^item> the line says \<^verbatim>\<open>terminated by signal\<close> when the captured status is neither 0 nor 1
    and \<^verbatim>\<open>exit value\<close> otherwise;
  \<^item> when \<open>w\<close> reports every tracked process as terminated, all 50 slots are empty after
    the run;
  \<^item> a registration writes the new record to a slot that was empty and changes no other
    slot, so no record in the table is ever overwritten.
\<close>

theorem C3_job_table:
  assumes "registrations es \<le> MAX_PROCS"
  shows "\<exists>s. job_run es (initial_shell fds0) = Some s
           \<and> length (backProcs s) = MAX_PROCS
           \<and> length (tracked (backProcs s)) \<le> registrations es
           \<and> (\<forall>i<MAX_PROCS. backProcs (childTerminates w s) ! i =
                (case backProcs s ! i of
                   None \<Rightarrow> None
                 | Some proc \<Rightarrow> if 0 < fst (w (backPID proc)) then None else Some proc))
           \<and> trace (childTerminates w s) = trace s @
                concat (map (\<lambda>proc. if 0 < fst (w (backPID proc))
                                      then [Kill (backPID proc) SIGKILL,
                                            Write (done_line (fst (w (backPID proc)))
                                                             (snd (w (backPID proc)))),
                                            Free (proc\<lparr>active := False\<rparr>)]
                                      else [])
                            (tracked (backProcs s)))
           \<and> ((\<forall>proc \<in> set (tracked (backProcs s)). 0 < fst (w (backPID proc))) \<longrightarrow>
                 backProcs (childTerminates w s) = replicate MAX_PROCS None)
           \<and> (\<forall>s'. saveProcess pid s = Some s' \<longrightarrow>
                 (\<exists>j<MAX_PROCS. backProcs s ! j = None
                    \<and> s' = s\<lparr>backProcs := (backProcs s)[j := Some \<lparr>backPID = pid, active = True\<rparr>]\<rparr>))
           \<and> (status \<noteq> 0 \<and> status \<noteq> 1 \<longrightarrow>
                 done_line p status = ''background pid '' @ show_int p
                   @ '' is done: terminated by signal '' @ show_int status @ ''\<newline>'')
           \<and> (status = 0 \<or> status = 1 \<longrightarrow>
                 done_line p status = ''background pid '' @ show_int p
                   @ '' is done: exit value '' @ show_int status @ ''\<newline>'')"
proof -
  let ?f = "\<lambda>slot. case slot of
                     None \<Rightarrow> None
                   | Some proc \<Rightarrow> if 0 < fst (w (backPID proc)) then None else Some proc"
  from assms have "length (tracked (backProcs (initial_shell fds0))) + registrations es \<le> MAX_PROCS"
    by (simp add: initial_shell_table)
  from job_run_within_capacity [OF initial_shell_table(1) this]
  obtain s where run: "job_run es (initial_shell fds0) = Some s"
    and len: "length (backProcs s) = MAX_PROCS"
    and cnt: "length (tracked (backProcs s)) \<le> registrations es"
    by (auto simp: initial_shell_table)
  note tb = childTerminates_table(1) [OF len, of w]
  have slots: "\<forall>i<MAX_PROCS. backProcs (childTerminates w s) ! i = ?f (backProcs s ! i)"
    using len by (simp add: tb)
  have tr: "trace (childTerminates w s) = trace s @
                concat (map (\<lambda>proc. if 0 < fst (w (backPID proc))
                                      then [Kill (backPID proc) SIGKILL,
                                            Write (done_line (fst (w (backPID proc)))
                                                             (snd (w (backPID proc)))),
                                            Free (proc\<lparr>active := False\<rparr>)]
                                      else [])
                            (tracked (backProcs s)))"
    using childTerminates_table(2) [OF len, of w] by (simp add: reap_events_eq)
  have all: "backProcs (childTerminates w s) = replicate MAX_PROCS None"
    if "\<forall>proc \<in> set (tracked (backProcs s)). 0 < fst (w (backPID proc))"
    using all_reaped_empty [OF that] len by (simp add: tb)
  have reg: "\<exists>j<MAX_PROCS. backProcs s ! j = None
                    \<and> s' = s\<lparr>backProcs := (backProcs s)[j := Some \<lparr>backPID = pid, active = True\<rparr>]\<rparr>"
    if "saveProcess pid s = Some s'" for s'
    using saveProcess_Some [OF that] len by simp
  have cl: "status \<noteq> 0 \<and> status \<noteq> 1 \<longrightarrow>
                 done_line p status = ''background pid '' @ show_int p
                   @ '' is done: terminated by signal '' @ show_int status @ ''\<newline>''"
    "status = 0 \<or> status = 1 \<longrightarrow>
                 done_line p status = ''background pid '' @ show_int p
                   @ '' is done: exit value '' @ show_int status @ ''\<newline>''"
    by (auto simp: done_line_def)
  from run len cnt slots tr all reg cl show ?thesis
    by (intro exI [of _ s]) blast
qed

theorem C3_job_table_witness:
  "registrations
     [Register 100, Register 101, Sigchld (\<lambda>p. if p = 100 then (100, 0) else (0, 0)), Register 102]
     \<le> MAX_PROCS
   \<and> job_run
       [Register 100, Register 101, Sigchld (\<lambda>p. if p = 100 then (100, 0) else (0, 0)), Register 102]
       (initial_shell std_fds) =
     Some ((initial_shell std_fds)
       \<lparr>backProcs := (replicate MAX_PROCS None)
          [0 := Some \<lparr>backPID = 102, active = True\<rparr>, 1 := Some \<lparr>backPID = 101, active = True\<rparr>],
        trace := [Kill 100 9, Write ''background pid 100 is done: exit value 0\<newline>'',
                  Free \<lparr>backPID = 100, active = False\<rparr>]\<rparr>)
   \<and> backProcs (childTerminates (\<lambda>p. (p, 15))
        ((initial_shell std_fds)
          \<lparr>backProcs := (replicate MAX_PROCS None)
             [0 := Some \<lparr>backPID = 102, active = True\<rparr>, 1 := Some \<lparr>backPID = 101, active = True\<rparr>],
           trace := [Kill 100 9, Write ''background pid 100 is done: exit value 0\<newline>'',
                     Free \<lparr>backPID = 100, active = False\<rparr>]\<rparr>)) =
     replicate MAX_PROCS None
   \<and> trace (childTerminates (\<lambda>p. (p, 15))
        ((initial_shell std_fds)
          \<lparr>backProcs := (replicate MAX_PROCS None)
             [0 := Some \<lparr>backPID = 102, active = True\<rparr>, 1 := Some \<lparr>backPID = 101, active = True\<rparr>],
           trace := [Kill 100 9, Write ''background pid 100 is done: exit value 0\<newline>'',
                     Free \<lparr>backPID = 100, active = False\<rparr>]\<rparr>)) =
     [Kill 100 9, Write ''background pid 100 is done: exit value 0\<newline>'',
      Free \<lparr>backPID = 100, active = False\<rparr>,
      Kill 102 9, Write ''background pid 102 is done: terminated by signal 15\<newline>'',
      Free \<lparr>backPID = 102, active = False\<rparr>,
      Kill 101 9, Write ''background pid 101 is done: terminated by signal 15\<newline>'',
      Free \<lparr>backPID = 101, active = False\<rparr>]"
proof -
  let ?es = "[Register 100, Register 101, Sigchld (\<lambda>p. if p = 100 then (100, 0) else (0, 0)),
              Register 102]"
  let ?w = "\<lambda>p :: int. (p, 15 :: int)"
  let ?S = "(initial_shell std_fds)
       \<lparr>backProcs := (replicate MAX_PROCS None)
          [0 := Some \<lparr>backPID = 102, active = True\<rparr>, 1 := Some \<lparr>backPID = 101, active = True\<rparr>],
        trace := [Kill 100 9, Write ''background pid 100 is done: exit value 0\<newline>'',
                  Free \<lparr>backPID = 100, active = False\<rparr>]\<rparr>"
  have h: "registrations ?es \<le> MAX_PROCS"
    by (simp add: MAX_PROCS_def)
  have run: "job_run ?es (initial_shell std_fds) = Some ?S"
    by code_simp
  have tr: "tracked (backProcs ?S) =
      [\<lparr>backPID = 102, active = True\<rparr>, \<lparr>backPID = 101, active = True\<rparr>]"
    by code_simp
  have lines: "done_line 102 15 = ''background pid 102 is done: terminated by signal 15\<newline>''"
    "done_line 101 15 = ''background pid 101 is done: terminated by signal 15\<newline>''"
    by code_simp+
  from C3_job_table [OF h, of std_fds ?w] run
  have empty: "(\<forall>proc \<in> set (tracked (backProcs ?S)). 0 < fst (?w (backPID proc))) \<longrightarrow>
                 backProcs (childTerminates ?w ?S) = replicate MAX_PROCS None"
    and trace: "trace (childTerminates ?w ?S) = trace ?S @
                concat (map (\<lambda>proc. if 0 < fst (?w (backPID proc))
                                      then [Kill (backPID proc) SIGKILL,
                                            Write (done_line (fst (?w (backPID proc)))
                                                             (snd (?w (backPID proc)))),
                                            Free (proc\<lparr>active := False\<rparr>)]
                                      else [])
                            (tracked (backProcs ?S)))"
    by auto
  have "\<forall>proc \<in> set (tracked (backProcs ?S)). 0 < fst (?w (backPID proc))"
    unfolding tr by simp
  with empty have e: "backProcs (childTerminates ?w ?S) = replicate MAX_PROCS None"
    by blast
  have t: "trace (childTerminates ?w ?S) =
     [Kill 100 9, Write ''background pid 100 is done: exit value 0\<newline>'',
      Free \<lparr>backPID = 100, active = False\<rparr>,
      Kill 102 9, Write ''background pid 102 is done: terminated by signal 15\<newline>'',
      Free \<lparr>backPID = 102, active = False\<rparr>,
      Kill 101 9, Write ''background pid 101 is done: terminated by signal 15\<newline>'',
      Free \<lparr>backPID = 101, active = False\<rparr>]"
    unfolding trace tr by (simp add: lines SIGKILL_def)
  from h run e t show ?thesis by blast
qed

subsection \<open>C4: the background marker\<close>

text \<open>
  C4, as amended. The claim has \<open>background\<close> true only for a trailing \<^verbatim>\<open>&\<close>; the code takes
  the marker wherever it stands. For every line, \<open>background\<close> is true only if some token
  of the line is \<^verbatim>\<open>&\<close> and background execution is not disabled; no argument recorded is
  ever \<^verbatim>\<open>&\<close>; and while background execution is disabled an \<^verbatim>\<open>&\<close> met with no path pending
  is dropped: the loop goes on with the command and the flags as they were.
\<close>

theorem C4_background_marker:
  "(background (getCommand pid bgDisabled buffer new_command) \<longrightarrow>
      ''&'' \<in> set (tokens buffer) \<and> \<not> bgDisabled)
   \<and> ''&'' \<notin> set (args (getCommand pid bgDisabled buffer new_command))
   \<and> getCommand_loop pid True (''&'' # rest) False False res_args cur =
       getCommand_loop pid True rest False False res_args cur"
proof (intro conjI impI)
  assume "background (getCommand pid bgDisabled buffer new_command)"
  then have "background new_command \<or> (''&'' \<in> set (tokens buffer) \<and> \<not> bgDisabled)"
    unfolding getCommand_def by (rule loop_background)
  then show "''&'' \<in> set (tokens buffer)" and "\<not> bgDisabled"
    by (simp_all add: new_command_def)
next
  have "''&'' \<notin> set (args new_command)"
    by (simp add: new_command_def)
  then show "''&'' \<notin> set (args (getCommand pid bgDisabled buffer new_command))"
    unfolding getCommand_def by (rule loop_args_no_amp)
next
  show "getCommand_loop pid True (''&'' # rest) False False res_args cur =
        getCommand_loop pid True rest False False res_args cur"
    by (simp add: isComment_def)
qed

theorem C4_background_marker_witness:
  "background (getCommand 1 False ''sleep 5 &\<newline>'' new_command)
   \<and> ''&'' \<in> set (tokens ''sleep 5 &\<newline>'')
   \<and> ''&'' \<notin> set (args (getCommand 1 False ''sleep 5 &\<newline>'' new_command))"
proof -
  have bg: "background (getCommand 1 False ''sleep 5 &\<newline>'' new_command)"
    by (simp add: getCommand_def tokens_sleep_bg new_command_def isComment_def)
  with C4_background_marker [of 1 False "''sleep 5 &\<newline>''"] show ?thesis
    by blast
qed

text \<open>
  The claim as stated fails on the line \<^verbatim>\<open>sleep 5 & x\<close>: \<open>background\<close> is true although
  the last token is \<^verbatim>\<open>x\<close>.
\<close>

theorem C4_trailing_counterexample:
  "background (getCommand 1 False ''sleep 5 & x\<newline>'' new_command)
   \<and> last (tokens ''sleep 5 & x\<newline>'') = ''x''
   \<and> args (getCommand 1 False ''sleep 5 & x\<newline>'' new_command) = [''sleep'', ''5'', ''x'']"
  by (simp add: getCommand_def tokens_sleep_amp_x new_command_def isComment_def)

subsection \<open>C5: the expansion of \<^verbatim>\<open>$$\<close>\<close>




subsection \<open>C6: a line with both redirections and the background marker\<close>

text \<open>
  C6. Parsing the line \<^verbatim>\<open>sort < in.txt > out.txt &\<close> while background execution is enabled
  gives the input file \<^verbatim>\<open>in.txt\<close>, the output file \<^verbatim>\<open>out.txt\<close>, \<open>background = True\<close> and
  exactly one argument, \<^verbatim>\<open>sort\<close>.
\<close>

theorem C6_sort_line:
  "getCommand pid False ''sort < in.txt > out.txt &\<newline>'' new_command =
     \<lparr>args = [''sort''], inputFile = Some ''in.txt'', outputFile = Some ''out.txt'',
      background = True\<rparr>"
  by (simp add: getCommand_def tokens_sort_line new_command_def isComment_def)

subsection \<open>C7: the mode toggle\<close>

text \<open>
  C7, as amended. The claim has \<open>background = False\<close> after one toggle whatever the toggles
  before; that holds for a toggle that arrives while background execution is enabled.
  Every delivery of the signal flips \<open>backgroundDisabled\<close>, writes the one of the two
  lines that fits the new state and changes no other global; after a toggle that arrives
  while background execution is enabled, every line parses to \<open>background = False\<close>; and
  two toggles give back the flag, so the parser treats every line as before them.
\<close>

theorem C7_mode_toggle:
  "backgroundDisabled (disableBackground s) = (\<not> backgroundDisabled s)
   \<and> trace (disableBackground s) = trace s @
        [Write (if backgroundDisabled (disableBackground s)
                then ''Entering foreground-only mode (& is now ignored)\<newline>''
                else ''Exiting foreground-only mode\<newline>'')]
   \<and> (\<not> backgroundDisabled s \<longrightarrow>
        \<not> background (getCommand pid (backgroundDisabled (disableBackground s)) buffer new_command))
   \<and> backgroundDisabled (disableBackground (disableBackground s)) = backgroundDisabled s
   \<and> getCommand pid (backgroundDisabled (disableBackground (disableBackground s))) buffer cur =
       getCommand pid (backgroundDisabled s) buffer cur
   \<and> forePID (disableBackground s) = forePID s
   \<and> backProcs (disableBackground s) = backProcs s
   \<and> exitStatus (disableBackground s) = exitStatus s
   \<and> fds (disableBackground s) = fds s"
proof -
  have flip: "backgroundDisabled (disableBackground s) = (\<not> backgroundDisabled s)" for s
    by (simp add: disableBackground_def)
  have twice: "backgroundDisabled (disableBackground (disableBackground s)) = backgroundDisabled s"
    by (simp add: flip)
  have line: "trace (disableBackground s) = trace s @
        [Write (if backgroundDisabled (disableBackground s)
                then ''Entering foreground-only mode (& is now ignored)\<newline>''
                else ''Exiting foreground-only mode\<newline>'')]"
    by (simp add: disableBackground_def)
  have off: "\<not> background (getCommand pid (backgroundDisabled (disableBackground s)) buffer new_command)"
    if "\<not> backgroundDisabled s"
    using that by (simp add: flip getCommand_def loop_background_disabled new_command_def)
  have frame: "forePID (disableBackground s) = forePID s"
    "backProcs (disableBackground s) = backProcs s"
    "exitStatus (disableBackground s) = exitStatus s"
    "fds (disableBackground s) = fds s"
    by (simp_all add: disableBackground_def)
  from flip line off twice frame show ?thesis by simp
qed

theorem C7_mode_toggle_witness:
  "\<not> backgroundDisabled (initial_shell [])
   \<and> \<not> background (getCommand 1 (backgroundDisabled (disableBackground (initial_shell [])))
          ''ls &\<newline>'' new_command)
   \<and> getCommand 1 (backgroundDisabled (disableBackground (disableBackground (initial_shell []))))
          ''ls &\<newline>'' new_command =
       \<lparr>args = [''ls''], inputFile = None, outputFile = None, background = True\<rparr>"
proof -
  have h: "\<not> backgroundDisabled (initial_shell [])"
    by (simp add: initial_shell_def)
  have p: "getCommand 1 (backgroundDisabled (initial_shell [])) ''ls &\<newline>'' new_command =
       \<lparr>args = [''ls''], inputFile = None, outputFile = None, background = True\<rparr>"
    by (simp add: initial_shell_def getCommand_def tokens_ls_bg new_command_def isComment_def)
  note t = C7_mode_toggle [of "initial_shell []" 1 "''ls &\<newline>''" new_command]
  from t h have a: "\<not> background (getCommand 1 (backgroundDisabled (disableBackground (initial_shell [])))
          ''ls &\<newline>'' new_command)"
    by blast
  from t have "getCommand 1 (backgroundDisabled (disableBackground (disableBackground (initial_shell []))))
          ''ls &\<newline>'' new_command =
        getCommand 1 (backgroundDisabled (initial_shell [])) ''ls &\<newline>'' new_command"
    by blast
  from this p have b: "getCommand 1 (backgroundDisabled (disableBackground (disableBackground (initial_shell []))))
          ''ls &\<newline>'' new_command =
       \<lparr>args = [''ls''], inputFile = None, outputFile = None, background = True\<rparr>"
    by (rule trans)
  from h a b show ?thesis by blast
qed

text \<open>
  The claim as stated fails after one earlier toggle: the second toggle enables background
  execution again, and \<^verbatim>\<open>ls &\<close> parses to \<open>background = True\<close>.
\<close>

theorem C7_prior_toggle_counterexample:
  "backgroundDisabled (disableBackground (initial_shell []))
   \<and> background (getCommand 1
        (backgroundDisabled (disableBackground (disableBackground (initial_shell []))))
        ''ls &\<newline>'' new_command)"
  by (simp add: disableBackground_def initial_shell_def getCommand_def tokens_ls_bg
      new_command_def isComment_def)

subsection \<open>C8: the exit built-in\<close>

text \<open>
  C8. With the job table in a state of the running shell (its \<open>MAX_PROCS\<close> entries),
  \<^verbatim>\<open>exitShell\<close> sends \<^verbatim>\<open>SIGKILL\<close> to the pid of every tracked job and frees its record, slot
  by slot; it leaves every slot empty, changes nothing else, and ends the shell's process
  with exit code 0. A line whose first argument is \<^verbatim>\<open>exit\<close> is dispatched to it.
\<close>

theorem C8_exit_kills_all:
  assumes "length (backProcs s) = MAX_PROCS"
  shows "exitShell s =
           Exit 0 (s\<lparr>backProcs := replicate MAX_PROCS None,
                     trace := trace s @
                       concat (map (\<lambda>proc. [Kill (backPID proc) SIGKILL, Free proc])
                                   (tracked (backProcs s)))\<rparr>)
         \<and> (args (getCommand (getpid_ret os) (backgroundDisabled s) buffer new_command) = ''exit'' # others
              \<longrightarrow> dispatch os buffer s = exitShell s)"
proof -
  from assms have "MAX_PROCS \<le> length (backProcs s)" by simp
  from exitShell_fold [OF this] assms
  have "exitShell s =
           Exit 0 (s\<lparr>backProcs := replicate MAX_PROCS None,
                     trace := trace s @
                       concat (map (\<lambda>proc. [Kill (backPID proc) SIGKILL, Free proc])
                                   (tracked (backProcs s)))\<rparr>)"
    by (simp add: exitShell_def EXIT_SUCCESS_def)
  moreover have "dispatch os buffer s = exitShell s"
    if "args (getCommand (getpid_ret os) (backgroundDisabled s) buffer new_command) = ''exit'' # others"
    using that by (simp add: dispatch_def)
  ultimately show ?thesis by blast
qed

theorem C8_exit_kills_all_witness:
  "length (backProcs two_jobs) = MAX_PROCS
   \<and> exitShell two_jobs =
       Exit 0 (two_jobs\<lparr>backProcs := replicate MAX_PROCS None,
                 trace := [Kill 100 9, Free \<lparr>backPID = 100, active = True\<rparr>,
                           Kill 101 9, Free \<lparr>backPID = 101, active = True\<rparr>]\<rparr>)
   \<and> dispatch \<lparr>getpid_ret = 4242, fork_ret = 102, waitpid_status = None, chdir_ret = 0\<rparr>
         ''exit\<newline>'' two_jobs = exitShell two_jobs"
proof -
  let ?os = "\<lparr>getpid_ret = 4242, fork_ret = 102, waitpid_status = None, chdir_ret = 0\<rparr>"
  have h: "length (backProcs two_jobs) = MAX_PROCS"
    by (simp add: two_jobs_def)
  have tr: "tracked (backProcs two_jobs) =
      [\<lparr>backPID = 100, active = True\<rparr>, \<lparr>backPID = 101, active = True\<rparr>]"
    unfolding two_jobs_def by code_simp
  have t0: "trace two_jobs = []"
    by (simp add: two_jobs_def initial_shell_def)
  have ex: "args (getCommand (getpid_ret ?os) (backgroundDisabled two_jobs) ''exit\<newline>'' new_command)
      = ''exit'' # []"
    by (simp add: getCommand_def tokens_exit_line new_command_def isComment_def)
  from C8_exit_kills_all [OF h, of ?os "''exit\<newline>''" "[]"] ex
  have "exitShell two_jobs =
           Exit 0 (two_jobs\<lparr>backProcs := replicate MAX_PROCS None,
                     trace := trace two_jobs @
                       concat (map (\<lambda>proc. [Kill (backPID proc) SIGKILL, Free proc])
                                   (tracked (backProcs two_jobs)))\<rparr>)"
    and d: "dispatch ?os ''exit\<newline>'' two_jobs = exitShell two_jobs"
    by blast+
  then have "exitShell two_jobs =
       Exit 0 (two_jobs\<lparr>backProcs := replicate MAX_PROCS None,
                 trace := [Kill 100 9, Free \<lparr>backPID = 100, active = True\<rparr>,
                           Kill 101 9, Free \<lparr>backPID = 101, active = True\<rparr>]\<rparr>)"
    by (simp add: tr t0 SIGKILL_def)
  with h d show ?thesis by blast
qed

subsection \<open>C9: blank lines and comment lines\<close>

text \<open>
  C9, as amended. The claim speaks of lines of whitespace; the tokenizer's delimiters are
  the space and the newline only. For every line (at least one character, as \<^verbatim>\<open>fgets\<close>
  stores a line it has read) that consists of spaces and newlines only, and for every line
  whose first token begins with \<^verbatim>\<open>#\<close>, the dispatch returns to the loop with the state it
  was given: no built-in runs, no process is spawned, and the job table, the exit status,
  the foreground pid, the flag, the descriptors and the trace are unchanged; the whole
  iteration has written the prompt and nothing else.
\<close>

theorem C9_blank_or_comment_line:
  assumes "(buffer \<noteq> [] \<and> set buffer \<subseteq> set delimiter)
           \<or> (\<exists>t rest. tokens buffer = t # rest \<and> isComment t)"
  shows "dispatch os buffer s = Return () s
         \<and> runShell_iteration os buffer s = Return () (s\<lparr>trace := trace s @ [Write '': '']\<rparr>)"
proof -
  have ne: "buffer \<noteq> []"
    using assms tokens_Nil_buffer [of buffer] by auto
  have "getCommand pid bd buffer new_command = new_command" for pid bd
    using assms
  proof
    assume "buffer \<noteq> [] \<and> set buffer \<subseteq> set delimiter"
    then show ?thesis
      by (simp add: getCommand_def tokens_only_delimiters)
  next
    assume "\<exists>t rest. tokens buffer = t # rest \<and> isComment t"
    then show ?thesis
      by (auto simp: getCommand_comment_first)
  qed
  then have "dispatch os buffer s' = Return () s'" for s'
    using ne by (simp add: dispatch_def new_command_def)
  then show ?thesis
    by (simp add: runShell_iteration_def)
qed

theorem C9_blank_or_comment_line_witness:
  "''   \<newline>'' \<noteq> [] \<and> set ''   \<newline>'' \<subseteq> set delimiter
   \<and> tokens ''#ls -la &\<newline>'' = [''#ls'', ''-la'', ''&''] \<and> isComment ''#ls''
   \<and> dispatch \<lparr>getpid_ret = 4242, fork_ret = 100, waitpid_status = Some 0, chdir_ret = 0\<rparr>
         ''   \<newline>'' (initial_shell std_fds) = Return () (initial_shell std_fds)
   \<and> dispatch \<lparr>getpid_ret = 4242, fork_ret = 100, waitpid_status = Some 0, chdir_ret = 0\<rparr>
         ''#ls -la &\<newline>'' (initial_shell std_fds) = Return () (initial_shell std_fds)"
proof -
  have h1: "''   \<newline>'' \<noteq> [] \<and> set ''   \<newline>'' \<subseteq> set delimiter"
    by (simp add: delimiter_def)
  have h2: "tokens ''#ls -la &\<newline>'' = [''#ls'', ''-la'', ''&''] \<and> isComment ''#ls''"
    by (simp add: tokens_comment_line isComment_def)
  from h2 have h2': "\<exists>t rest. tokens ''#ls -la &\<newline>'' = t # rest \<and> isComment t"
    by blast
  from h1 h2
    C9_blank_or_comment_line [OF disjI1, OF h1]
    C9_blank_or_comment_line [OF disjI2, OF h2']
  show ?thesis by blast
qed

text \<open>
  The claim as stated fails on the line that holds one tab: the tab is a token, so the
  line is dispatched as a command; a process is forked and waited for (here it ends with
  wait status 256, exit code 1), the foreground pid and the exit status change and two
  descriptors are taken.
\<close>

theorem C9_tab_line_counterexample:
  "tokens [CHR 0x09, CHR 0x0A] = [[CHR 0x09]]
   \<and> dispatch \<lparr>getpid_ret = 4242, fork_ret = 100, waitpid_status = Some 256, chdir_ret = 0\<rparr>
         [CHR 0x09, CHR 0x0A] (initial_shell std_fds) =
       Return () ((initial_shell std_fds)
         \<lparr>forePID := 100, exitStatus := 1,
          fds := [Some 0, Some 0, Some 0, Some 0, Some 0, None, None, None]\<rparr>)
   \<and> forePID (initial_shell std_fds) = - 1"
  by (simp add: dispatch_def getCommand_def tokens_tab_line new_command_def isComment_def
      runCommand_def sys_dup_def is_open_def std_fds_def initial_shell_def STDOUT_FILENO_def
      STDIN_FILENO_def restore_stdio_def WEXITSTATUS_def)

subsection \<open>C10: a pending path comes first\<close>

text \<open>
  C10. Whatever the token is, with the output path pending the loop takes it as the output
  path, clears that flag only and goes on: the token ends no line as a comment and is no
  marker, operator or argument; the same with the input path pending and no output path
  pending; with both pending the output path is served and the input path stays pending.
  Hence the token after a \<^verbatim>\<open><\<close> or \<^verbatim>\<open>>\<close> read as an operator is always the path. On the line
  \<^verbatim>\<open>cat < & > #x $$\<close> the input file is \<^verbatim>\<open>&\<close> and the output file \<^verbatim>\<open>#x\<close>.
\<close>

theorem C10_pending_path_first:
  "getCommand_loop pid bgDisabled (token # rest) True inRedirect res_args cur =
     getCommand_loop pid bgDisabled rest False inRedirect res_args (cur\<lparr>outputFile := Some token\<rparr>)
   \<and> getCommand_loop pid bgDisabled (token # rest) False True res_args cur =
       getCommand_loop pid bgDisabled rest False False res_args (cur\<lparr>inputFile := Some token\<rparr>)
   \<and> getCommand_loop pid bgDisabled (''<'' # token # rest) False False res_args cur =
       getCommand_loop pid bgDisabled rest False False res_args (cur\<lparr>inputFile := Some token\<rparr>)
   \<and> getCommand_loop pid bgDisabled (''>'' # token # rest) False False res_args cur =
       getCommand_loop pid bgDisabled rest False False res_args (cur\<lparr>outputFile := Some token\<rparr>)
   \<and> getCommand pid bgDisabled ''cat < & > #x $$\<newline>'' new_command =
       \<lparr>args = [''cat'', show_int pid], inputFile = Some ''&'', outputFile = Some ''#x'',
        background = False\<rparr>"
  by (simp add: isComment_def getCommand_def tokens_cat_line new_command_def expand_pid_def
      write_res_Nil)

end
